theory Spec2Isabelle
  imports Main "HOL-Library.Word"
begin

section \<open>Configuration documents\<close>

text \<open>
  The functions of \<^verbatim>\<open>app/config.go\<close> read three settings of a \<^verbatim>\<open>model.Config\<close>:
  \<^verbatim>\<open>MetricsSettings.Enable\<close>, \<^verbatim>\<open>MessageExportSettings.EnableExport\<close> and
  \<^verbatim>\<open>MessageExportSettings.ExportFromTimestamp\<close>. The type itself is declared in package
  \<^verbatim>\<open>model\<close>. A document is a record with these settings groups; every other group of the
  document lives in the extension part of the record scheme, so that the functions
  below are defined for documents with any further content.
\<close>

record MetricsSettings =
  Enable :: bool

record MessageExportSettings =
  EnableExport :: bool
  ExportFromTimestamp :: "64 word"

text \<open>
  Modelled from the spec: \<^verbatim>\<open>model.Config\<close>. "Configuration is always a fully-populated,
  defaulted structure (no partial documents)": the pointer-typed settings
  (\<^verbatim>\<open>*bool\<close>, \<^verbatim>\<open>*int64\<close>) are never nil and are modelled by their values.
\<close>

record Config =
  MetricsSettings :: MetricsSettings
  MessageExportSettings :: MessageExportSettings

section \<open>HandleMessageExportConfig\<close>

text \<open>
  \<^verbatim>\<open>HandleMessageExportConfig(cfg, appCfg)\<close> mutates \<^verbatim>\<open>cfg\<close> in place; the model returns the
  document \<^verbatim>\<open>cfg\<close> points to afterwards. \<^verbatim>\<open>GetMillis\<close> is the value \<^verbatim>\<open>model.GetMillis()\<close>
  returns at the call, the current time in milliseconds.
\<close>

definition HandleMessageExportConfig ::
  "64 word \<Rightarrow> 'a Config_scheme \<Rightarrow> 'b Config_scheme \<Rightarrow> 'a Config_scheme" where
  "HandleMessageExportConfig GetMillis cfg appCfg =
     (if EnableExport (MessageExportSettings cfg) \<noteq> EnableExport (MessageExportSettings appCfg)
      then
        if EnableExport (MessageExportSettings cfg)
           \<and> ExportFromTimestamp (MessageExportSettings cfg) = 0
        then cfg\<lparr>MessageExportSettings :=
                   (MessageExportSettings cfg)\<lparr>ExportFromTimestamp := GetMillis\<rparr>\<rparr>
        else if \<not> EnableExport (MessageExportSettings cfg)
        then cfg\<lparr>MessageExportSettings :=
                   (MessageExportSettings cfg)\<lparr>ExportFromTimestamp := 0\<rparr>\<rparr>
        else cfg
      else cfg)"

section \<open>Errors\<close>

text \<open>
  A Go \<^verbatim>\<open>error\<close> value. \<^verbatim>\<open>config.ErrReadOnlyConfiguration\<close> is the sentinel of package
  \<^verbatim>\<open>config\<close>; \<open>New\<close> is any other root error (\<^verbatim>\<open>errors.New\<close>, \<^verbatim>\<open>fmt.Errorf\<close>) with its
  message; \<open>Wrap\<close> is \<^verbatim>\<open>errors.Wrap(err, message)\<close> of \<^verbatim>\<open>github.com/pkg/errors\<close>.
\<close>

datatype error = ErrReadOnlyConfiguration | New string | Wrap error string

text \<open>\<^verbatim>\<open>errors.Cause\<close>: the innermost error of a chain of wrappers.\<close>

fun Cause :: "error \<Rightarrow> error" where
  "Cause (Wrap err message) = Cause err"
| "Cause err = err"

text \<open>
  \<^verbatim>\<open>err.Error()\<close>. The text of the sentinel is fixed in package \<^verbatim>\<open>config\<close>; no property
  below depends on it.
\<close>

fun Error :: "error \<Rightarrow> string" where
  "Error ErrReadOnlyConfiguration = ''configuration is read-only''"
| "Error (New message) = message"
| "Error (Wrap err message) = message @ '': '' @ Error err"

text \<open>
  \<^verbatim>\<open>model.AppError\<close> as \<^verbatim>\<open>model.NewAppError(where, id, params, details, status)\<close> fills it;
  \<^verbatim>\<open>params\<close> is \<^verbatim>\<open>nil\<close> at both calls of this file.
\<close>

record AppError =
  Where :: string
  Id :: string
  DetailedError :: string
  StatusCode :: nat

definition NewAppError :: "string \<Rightarrow> string \<Rightarrow> string \<Rightarrow> nat \<Rightarrow> AppError" where
  "NewAppError where' id' details status =
     \<lparr>Where = where', Id = id', DetailedError = details, StatusCode = status\<rparr>"

definition StatusForbidden :: nat where
  "StatusForbidden = 403"

definition StatusInternalServerError :: nat where
  "StatusInternalServerError = 500"

section \<open>The configuration store and the server\<close>

text \<open>
  \<^verbatim>\<open>config.Store\<close> is declared in package \<^verbatim>\<open>config\<close>. Its state is a value of an arbitrary
  type \<open>'s\<close>, and the four methods the wrapper calls are parameters: \<^verbatim>\<open>Get\<close> and
  \<^verbatim>\<open>IsReadOnly\<close> read the state, \<^verbatim>\<open>RemoveEnvironmentOverrides\<close> reads it and maps a
  document to a document, and \<^verbatim>\<open>Set\<close> returns the new state with either the error or
  the pair of the old and the new document. Whatever \<^verbatim>\<open>Set\<close> does inside (validation,
  persistence, the swap, invoking the listeners) is a change of that state.
\<close>

record ('s, 'c) Store =
  Store_Get :: "'s \<Rightarrow> 'c"
  Store_IsReadOnly :: "'s \<Rightarrow> bool"
  Store_Set :: "'c \<Rightarrow> 's \<Rightarrow> (error + 'c \<times> 'c) \<times> 's"
  Store_RemoveEnvironmentOverrides :: "'s \<Rightarrow> 'c \<Rightarrow> 'c"

text \<open>
  The calls the wrapper makes on the other collaborators of the server, in the order
  they are made: the metrics implementation, the metrics server, the cluster and the
  logger.
\<close>

datatype 'c call =
    Metrics_Register
  | SetupMetricsServer
  | StopMetricsServer
  | Cluster_ConfigChanged 'c 'c bool
  | mlog_Error string error

text \<open>
  The part of \<^verbatim>\<open>Server\<close> the wrapper uses. \<open>Metrics\<close> tells whether \<^verbatim>\<open>srv.Metrics\<close> is not
  nil. \<open>Cluster\<close> is \<open>None\<close> when \<^verbatim>\<open>srv.Cluster\<close> is nil, and otherwise holds the result
  \<^verbatim>\<open>ConfigChanged(old, new, sendToOtherServer)\<close> gives (\<open>None\<close> for a nil \<^verbatim>\<open>*AppError\<close>).
\<close>

record ('s, 'c) Server =
  configStore :: 's
  startMetrics :: bool
  Metrics :: bool
  Cluster :: "('c \<Rightarrow> 'c \<Rightarrow> bool \<Rightarrow> AppError option) option"
  calls :: "'c call list"

definition called :: "'c call \<Rightarrow> ('s, 'c) Server \<Rightarrow> ('s, 'c) Server" where
  "called c srv = srv\<lparr>calls := calls srv @ [c]\<rparr>"

text \<open>\<^verbatim>\<open>configWrapper.Config\<close>.\<close>

definition Config :: "('s, 'c) Store \<Rightarrow> ('s, 'c) Server \<Rightarrow> 'c" where
  "Config store srv = Store_Get store (configStore srv)"

text \<open>
  \<^verbatim>\<open>configWrapper.UpdateConfig\<close>. \<^verbatim>\<open>Clone\<close> is a deep copy, the identity on values; the
  mutator \<open>f\<close> changes the copy.
\<close>

definition UpdateConfig ::
  "('s, 'c) Store \<Rightarrow> ('c \<Rightarrow> 'c) \<Rightarrow> ('s, 'c) Server \<Rightarrow> ('s, 'c) Server" where
  "UpdateConfig store f srv =
     (if Store_IsReadOnly store (configStore srv) then srv
      else
        let old = Config store srv;
            updated = f old
        in case Store_Set store updated (configStore srv) of
             (Inl err, s') \<Rightarrow>
               called (mlog_Error ''Failed to update config'' err) (srv\<lparr>configStore := s'\<rparr>)
           | (Inr _, s') \<Rightarrow> srv\<lparr>configStore := s'\<rparr>)"

text \<open>
  The metrics branch of \<^verbatim>\<open>SaveConfig\<close>, on the server whose store \<^verbatim>\<open>Set\<close> has already
  changed.
\<close>

definition toggleMetrics ::
  "('s, 'a Config_scheme) Store \<Rightarrow> ('s, 'a Config_scheme) Server
     \<Rightarrow> ('s, 'a Config_scheme) Server" where
  "toggleMetrics store srv =
     (if startMetrics srv \<and> Enable (MetricsSettings (Config store srv))
      then called SetupMetricsServer (if Metrics srv then called Metrics_Register srv else srv)
      else called StopMetricsServer srv)"

text \<open>
  \<^verbatim>\<open>configWrapper.SaveConfig\<close>. The result is the Go triple
  \<^verbatim>\<open>(*model.Config, *model.Config, *model.AppError)\<close> with \<open>None\<close> for nil, and the server
  afterwards.
\<close>

definition SaveConfig ::
  "('s, 'a Config_scheme) Store \<Rightarrow> 'a Config_scheme \<Rightarrow> bool
     \<Rightarrow> ('s, 'a Config_scheme) Server
     \<Rightarrow> ('a Config_scheme option \<times> 'a Config_scheme option \<times> AppError option)
         \<times> ('s, 'a Config_scheme) Server" where
  "SaveConfig store newCfg sendConfigChangeClusterMessage srv =
     (case Store_Set store newCfg (configStore srv) of
        (Inl err, s') \<Rightarrow>
          if Cause err = ErrReadOnlyConfiguration
          then ((None, None,
                 Some (NewAppError ''saveConfig'' ''ent.cluster.save_config.error''
                         (Error err) StatusForbidden)),
                srv\<lparr>configStore := s'\<rparr>)
          else ((None, None,
                 Some (NewAppError ''saveConfig'' ''app.save_config.app_error''
                         (Error err) StatusInternalServerError)),
                srv\<lparr>configStore := s'\<rparr>)
      | (Inr (oldCfg, newCfg'), s') \<Rightarrow>
          (let srv1 = toggleMetrics store (srv\<lparr>configStore := s'\<rparr>)
           in (case Cluster srv1 of
                 None \<Rightarrow> ((Some oldCfg, Some newCfg', None), srv1)
               | Some ConfigChanged \<Rightarrow>
                   (let old' = Store_RemoveEnvironmentOverrides store s' oldCfg;
                        new' = Store_RemoveEnvironmentOverrides store s' newCfg';
                        srv2 = called (Cluster_ConfigChanged old' new'
                                         sendConfigChangeClusterMessage) srv1
                    in (case ConfigChanged old' new' sendConfigChangeClusterMessage of
                          Some err \<Rightarrow> ((None, None, Some err), srv2)
                        | None \<Rightarrow> ((Some oldCfg, Some newCfg', None), srv2))))))"

section \<open>Secrets and the client configuration\<close>

type_synonym bytes = "8 word list"

text \<open>\<^verbatim>\<open>model.System\<close>, a named record of the system store.\<close>

record System =
  Name :: string
  Value :: string

text \<open>
  \<^verbatim>\<open>model.SystemPostActionCookieSecret\<close>, \<^verbatim>\<open>model.SystemECDSAKey\<close> and
  \<^verbatim>\<open>model.SystemAsymmetricSigningKey\<close>. A slice or pointer field that may be nil is an
  option: \<^verbatim>\<open>Secret []byte\<close>, the \<^verbatim>\<open>*big.Int\<close> coordinates and \<^verbatim>\<open>ECDSAKey *SystemECDSAKey\<close>.
\<close>

record SystemPostActionCookieSecret =
  Secret :: "bytes option"

record SystemECDSAKey =
  Curve :: string
  X :: "int option"
  Y :: "int option"
  D :: "int option"

record SystemAsymmetricSigningKey =
  ECDSAKey :: "SystemECDSAKey option"

text \<open>\<^verbatim>\<open>ecdsa.PublicKey\<close> and \<^verbatim>\<open>ecdsa.PrivateKey\<close>; \<^verbatim>\<open>elliptic.P256()\<close> is the one curve used.\<close>

datatype elliptic_Curve = P256

record ecdsa_PublicKey =
  PublicKey_Curve :: elliptic_Curve
  PublicKey_X :: "int option"
  PublicKey_Y :: "int option"

record ecdsa_PrivateKey =
  PublicKey :: ecdsa_PublicKey
  PrivateKey_D :: "int option"

definition SystemPostActionCookieSecretKey :: string where
  "SystemPostActionCookieSecretKey = ''PostActionCookieSecret''"

definition SystemAsymmetricSigningKeyKey :: string where
  "SystemAsymmetricSigningKeyKey = ''AsymmetricSigningKey''"

text \<open>
  The store behind \<^verbatim>\<open>ch.srv.Store\<close> is declared in package \<^verbatim>\<open>store\<close> and shared with the
  other nodes of the cluster. Its state is a value of an arbitrary type \<open>'k\<close> and the
  three methods called here are parameters; each returns the state after the call, so
  two reads of one name may differ (a peer wrote in between).
  \<^verbatim>\<open>GetLatest\<close> gives the \<^verbatim>\<open>Id\<close> of the latest terms of service.
\<close>

record 'k SqlStore =
  System_GetByName :: "string \<Rightarrow> 'k \<Rightarrow> (error + System) \<times> 'k"
  System_Save :: "System \<Rightarrow> 'k \<Rightarrow> error option \<times> 'k"
  TermsOfService_GetLatest :: "bool \<Rightarrow> 'k \<Rightarrow> (error + string) \<times> 'k"

text \<open>
  The library functions the code calls, as parameters: \<^verbatim>\<open>rand.Reader.Read\<close> on a buffer
  of the given length (the buffer afterwards, or the error), \<^verbatim>\<open>ecdsa.GenerateKey\<close> on
  P-256 (\<open>X\<close>, \<open>Y\<close>, \<open>D\<close>, or the error), \<^verbatim>\<open>json.Marshal\<close> and \<^verbatim>\<open>json.Unmarshal\<close> at the
  three types they are used at, \<^verbatim>\<open>md5.Sum\<close>, \<^verbatim>\<open>x509.MarshalPKIXPublicKey\<close> (its error is
  dropped by the caller), \<^verbatim>\<open>base64.StdEncoding.EncodeToString\<close>, and the two generators
  of package \<^verbatim>\<open>config\<close>. \<^verbatim>\<open>json.Unmarshal\<close> into a nil pointer gives an error, a nil pointer
  (the JSON text \<^verbatim>\<open>null\<close>) or a value.
\<close>

record ('c, 'l) Lib =
  rand_Reader_Read :: "nat \<Rightarrow> error + bytes"
  ecdsa_GenerateKey :: "error + int \<times> int \<times> int"
  json_Marshal_secret :: "SystemPostActionCookieSecret \<Rightarrow> error + string"
  json_Unmarshal_secret :: "string \<Rightarrow> error + SystemPostActionCookieSecret option"
  json_Marshal_key :: "SystemAsymmetricSigningKey \<Rightarrow> error + string"
  json_Unmarshal_key :: "string \<Rightarrow> error + SystemAsymmetricSigningKey option"
  json_Marshal_map :: "(string \<rightharpoonup> string) \<Rightarrow> bytes"
  md5_Sum :: "bytes \<Rightarrow> bytes"
  x509_MarshalPKIXPublicKey :: "ecdsa_PublicKey \<Rightarrow> bytes"
  base64_EncodeToString :: "bytes \<Rightarrow> string"
  GenerateClientConfig :: "'c \<Rightarrow> string \<Rightarrow> 'l \<Rightarrow> (string \<rightharpoonup> string)"
  GenerateLimitedClientConfig :: "'c \<Rightarrow> string \<Rightarrow> 'l \<Rightarrow> (string \<rightharpoonup> string)"

text \<open>
  The part of \<^verbatim>\<open>Channels\<close> these functions use: the state of \<^verbatim>\<open>ch.srv.Store\<close>, the values
  of \<^verbatim>\<open>ch.cfgSvc.Config()\<close>, \<^verbatim>\<open>ch.srv.TelemetryId()\<close> and \<^verbatim>\<open>ch.srv.License()\<close>, the cached
  secrets, the three \<^verbatim>\<open>atomic.Value\<close> cells of the client configuration (\<open>None\<close> while
  nothing is stored), and the warnings written to the log.
\<close>

record ('k, 'c, 'l) Channels =
  srv_Store :: 'k
  cfgSvc_Config :: 'c
  srv_TelemetryId :: string
  srv_License :: 'l
  postActionCookieSecret :: "bytes option"
  asymmetricSigningKey :: "ecdsa_PrivateKey option"
  clientConfig :: "(string \<rightharpoonup> string) option"
  limitedClientConfig :: "(string \<rightharpoonup> string) option"
  clientConfigHash :: "string option"
  mlog_Warn :: "(string \<times> error) list"

text \<open>How a call ends: it returns, or it panics (a nil dereference, a failed type assertion).\<close>

datatype 'a outcome = Return 'a | Panic

text \<open>\<^verbatim>\<open>fmt.Sprintf("%x", b)\<close> on a byte array: two lower-case hexadecimal digits per byte.\<close>

definition hexdigit :: "nat \<Rightarrow> char" where
  "hexdigit n = ''0123456789abcdef'' ! (n mod 16)"

definition Sprintf_x :: "bytes \<Rightarrow> string" where
  "Sprintf_x b = concat (map (\<lambda>c. [hexdigit (unat c div 16), hexdigit (unat c mod 16)]) b)"

text \<open>\<^verbatim>\<open>Channels.AsymmetricSigningKey\<close>.\<close>

definition AsymmetricSigningKey :: "('k, 'c, 'l) Channels \<Rightarrow> ecdsa_PrivateKey option" where
  "AsymmetricSigningKey ch = asymmetricSigningKey ch"

text \<open>\<^verbatim>\<open>Channels.PostActionCookieSecret\<close>.\<close>

definition PostActionCookieSecret :: "('k, 'c, 'l) Channels \<Rightarrow> bytes option" where
  "PostActionCookieSecret ch = postActionCookieSecret ch"

text \<open>\<^verbatim>\<open>App.ClientConfig\<close>: the type assertion panics on an empty cell.\<close>

definition ClientConfig :: "('k, 'c, 'l) Channels \<Rightarrow> (string \<rightharpoonup> string) outcome" where
  "ClientConfig ch = (case clientConfig ch of None \<Rightarrow> Panic | Some m \<Rightarrow> Return m)"

text \<open>
  Modelled from the spec: \<^verbatim>\<open>Channels.ClientConfigHash\<close>, which \<^verbatim>\<open>App.ClientConfigHash\<close> calls
  and which is declared in another file. It is a "read-only accessor" of the hash that
  regeneration "stores as the new atomically-readable snapshot": the content of the cell,
  \<open>None\<close> while nothing is stored.
\<close>

definition ClientConfigHash :: "('k, 'c, 'l) Channels \<Rightarrow> string option" where
  "ClientConfigHash ch = clientConfigHash ch"

text \<open>\<^verbatim>\<open>Channels.regenerateClientConfig\<close>.\<close>

definition regenerateClientConfig ::
  "'k SqlStore \<Rightarrow> ('c, 'l) Lib \<Rightarrow> ('k, 'c, 'l) Channels \<Rightarrow> ('k, 'c, 'l) Channels" where
  "regenerateClientConfig store lib ch =
     (let clientConfig0 =
            GenerateClientConfig lib (cfgSvc_Config ch) (srv_TelemetryId ch) (srv_License ch);
          limitedClientConfig0 =
            GenerateLimitedClientConfig lib (cfgSvc_Config ch) (srv_TelemetryId ch) (srv_License ch);
          (clientConfig1, limitedClientConfig1, k) =
            (if clientConfig0 ''EnableCustomTermsOfService'' = Some ''true''
             then (case TermsOfService_GetLatest store True (srv_Store ch) of
                     (Inl err, k) \<Rightarrow> (clientConfig0, limitedClientConfig0, k)
                   | (Inr termsOfService_Id, k) \<Rightarrow>
                       (clientConfig0(''CustomTermsOfServiceId'' \<mapsto> termsOfService_Id),
                        limitedClientConfig0(''CustomTermsOfServiceId'' \<mapsto> termsOfService_Id),
                        k))
             else (clientConfig0, limitedClientConfig0, srv_Store ch));
          (clientConfig2, limitedClientConfig2) =
            (case AsymmetricSigningKey ch of
               None \<Rightarrow> (clientConfig1, limitedClientConfig1)
             | Some key \<Rightarrow>
                 (let der = x509_MarshalPKIXPublicKey lib (PublicKey key)
                  in (clientConfig1(''AsymmetricSigningPublicKey'' \<mapsto>
                                      base64_EncodeToString lib der),
                      limitedClientConfig1(''AsymmetricSigningPublicKey'' \<mapsto>
                                             base64_EncodeToString lib der))));
          clientConfigJSON = json_Marshal_map lib clientConfig2
      in ch\<lparr>srv_Store := k,
             clientConfig := Some clientConfig2,
             limitedClientConfig := Some limitedClientConfig2,
             clientConfigHash := Some (Sprintf_x (md5_Sum lib clientConfigJSON))\<rparr>)"

subsection \<open>ensurePostActionCookieSecret\<close>

text \<open>
  The function is a sequence of four blocks, the variable \<^verbatim>\<open>secret\<close> passing from one to
  the next. They are defined last block first. The last block is the assignment
  \<^verbatim>\<open>ch.postActionCookieSecret = secret.Secret\<close>, which dereferences \<^verbatim>\<open>secret\<close>.
\<close>

definition ensurePostActionCookieSecret_assign ::
  "SystemPostActionCookieSecret option \<Rightarrow> ('k, 'c, 'l) Channels
     \<Rightarrow> error option outcome \<times> ('k, 'c, 'l) Channels" where
  "ensurePostActionCookieSecret_assign secret ch =
     (case secret of
        None \<Rightarrow> (Panic, ch)
      | Some sec \<Rightarrow> (Return None, ch\<lparr>postActionCookieSecret := Secret sec\<rparr>))"

text \<open>The third block: \<^verbatim>\<open>if secret == nil\<close>, read the record another server saved.\<close>

definition ensurePostActionCookieSecret_reread ::
  "'k SqlStore \<Rightarrow> ('c, 'l) Lib \<Rightarrow> SystemPostActionCookieSecret option
     \<Rightarrow> ('k, 'c, 'l) Channels \<Rightarrow> error option outcome \<times> ('k, 'c, 'l) Channels" where
  "ensurePostActionCookieSecret_reread store lib secret ch =
     (case secret of
        Some sec \<Rightarrow> ensurePostActionCookieSecret_assign (Some sec) ch
      | None \<Rightarrow>
          (case System_GetByName store SystemPostActionCookieSecretKey (srv_Store ch) of
             (Inl err, k) \<Rightarrow> (Return (Some err), ch\<lparr>srv_Store := k\<rparr>)
           | (Inr value, k) \<Rightarrow>
               (case json_Unmarshal_secret lib (Value value) of
                  Inl err \<Rightarrow> (Return (Some err), ch\<lparr>srv_Store := k\<rparr>)
                | Inr secret' \<Rightarrow>
                    ensurePostActionCookieSecret_assign secret' (ch\<lparr>srv_Store := k\<rparr>))))"

text \<open>The second block: \<^verbatim>\<open>if secret == nil\<close>, generate a secret and try to save it.\<close>

definition ensurePostActionCookieSecret_generate ::
  "'k SqlStore \<Rightarrow> ('c, 'l) Lib \<Rightarrow> SystemPostActionCookieSecret option
     \<Rightarrow> ('k, 'c, 'l) Channels \<Rightarrow> error option outcome \<times> ('k, 'c, 'l) Channels" where
  "ensurePostActionCookieSecret_generate store lib secret ch =
     (case secret of
        Some sec \<Rightarrow> ensurePostActionCookieSecret_reread store lib (Some sec) ch
      | None \<Rightarrow>
          (case rand_Reader_Read lib 32 of
             Inl err \<Rightarrow> (Return (Some err), ch)
           | Inr buf \<Rightarrow>
               (let newSecret = \<lparr>Secret = Some buf\<rparr>
                in (case json_Marshal_secret lib newSecret of
                      Inl err \<Rightarrow> (Return (Some err), ch)
                    | Inr v \<Rightarrow>
                        (case System_Save store
                                \<lparr>Name = SystemPostActionCookieSecretKey, Value = v\<rparr>
                                (srv_Store ch) of
                           (Some err, k) \<Rightarrow>
                             ensurePostActionCookieSecret_reread store lib None
                               (ch\<lparr>srv_Store := k,
                                    mlog_Warn := mlog_Warn ch
                                      @ [(''Failed to save PostActionCookieSecret'', err)]\<rparr>)
                         | (None, k) \<Rightarrow>
                             ensurePostActionCookieSecret_reread store lib (Some newSecret)
                               (ch\<lparr>srv_Store := k\<rparr>))))))"

text \<open>\<^verbatim>\<open>Channels.ensurePostActionCookieSecret\<close>: the cache check and the first read.\<close>

definition ensurePostActionCookieSecret ::
  "'k SqlStore \<Rightarrow> ('c, 'l) Lib \<Rightarrow> ('k, 'c, 'l) Channels
     \<Rightarrow> error option outcome \<times> ('k, 'c, 'l) Channels" where
  "ensurePostActionCookieSecret store lib ch =
     (if postActionCookieSecret ch \<noteq> None then (Return None, ch)
      else
        (case System_GetByName store SystemPostActionCookieSecretKey (srv_Store ch) of
           (Inl err, k) \<Rightarrow>
             ensurePostActionCookieSecret_generate store lib None (ch\<lparr>srv_Store := k\<rparr>)
         | (Inr value, k) \<Rightarrow>
             (case json_Unmarshal_secret lib (Value value) of
                Inl err \<Rightarrow> (Return (Some err), ch\<lparr>srv_Store := k\<rparr>)
              | Inr secret \<Rightarrow>
                  ensurePostActionCookieSecret_generate store lib secret
                    (ch\<lparr>srv_Store := k\<rparr>))))"

subsection \<open>ensureAsymmetricSigningKey\<close>

text \<open>
  The same four blocks. The last one dereferences \<^verbatim>\<open>key\<close> and \<^verbatim>\<open>key.ECDSAKey\<close>, resolves the
  curve, stores the private key and regenerates the client configuration.
\<close>

definition ensureAsymmetricSigningKey_store ::
  "'k SqlStore \<Rightarrow> ('c, 'l) Lib \<Rightarrow> SystemAsymmetricSigningKey option
     \<Rightarrow> ('k, 'c, 'l) Channels \<Rightarrow> error option outcome \<times> ('k, 'c, 'l) Channels" where
  "ensureAsymmetricSigningKey_store store lib key ch =
     (case key of
        None \<Rightarrow> (Panic, ch)
      | Some key' \<Rightarrow>
          (case ECDSAKey key' of
             None \<Rightarrow> (Panic, ch)
           | Some ec \<Rightarrow>
               if Curve ec = ''P-256''
               then (Return None,
                     regenerateClientConfig store lib
                       (ch\<lparr>asymmetricSigningKey :=
                             Some \<lparr>PublicKey = \<lparr>PublicKey_Curve = P256,
                                                 PublicKey_X = X ec,
                                                 PublicKey_Y = Y ec\<rparr>,
                                   PrivateKey_D = D ec\<rparr>\<rparr>))
               else (Return (Some (New (''unknown curve: '' @ Curve ec))), ch)))"

definition ensureAsymmetricSigningKey_reread ::
  "'k SqlStore \<Rightarrow> ('c, 'l) Lib \<Rightarrow> SystemAsymmetricSigningKey option
     \<Rightarrow> ('k, 'c, 'l) Channels \<Rightarrow> error option outcome \<times> ('k, 'c, 'l) Channels" where
  "ensureAsymmetricSigningKey_reread store lib key ch =
     (case key of
        Some key' \<Rightarrow> ensureAsymmetricSigningKey_store store lib (Some key') ch
      | None \<Rightarrow>
          (case System_GetByName store SystemAsymmetricSigningKeyKey (srv_Store ch) of
             (Inl err, k) \<Rightarrow> (Return (Some err), ch\<lparr>srv_Store := k\<rparr>)
           | (Inr value, k) \<Rightarrow>
               (case json_Unmarshal_key lib (Value value) of
                  Inl err \<Rightarrow> (Return (Some err), ch\<lparr>srv_Store := k\<rparr>)
                | Inr key' \<Rightarrow>
                    ensureAsymmetricSigningKey_store store lib key' (ch\<lparr>srv_Store := k\<rparr>))))"

definition ensureAsymmetricSigningKey_generate ::
  "'k SqlStore \<Rightarrow> ('c, 'l) Lib \<Rightarrow> SystemAsymmetricSigningKey option
     \<Rightarrow> ('k, 'c, 'l) Channels \<Rightarrow> error option outcome \<times> ('k, 'c, 'l) Channels" where
  "ensureAsymmetricSigningKey_generate store lib key ch =
     (case key of
        Some key' \<Rightarrow> ensureAsymmetricSigningKey_reread store lib (Some key') ch
      | None \<Rightarrow>
          (case ecdsa_GenerateKey lib of
             Inl err \<Rightarrow> (Return (Some err), ch)
           | Inr (x, y, d) \<Rightarrow>
               (let newKey = \<lparr>ECDSAKey = Some \<lparr>Curve = ''P-256'', X = Some x,
                                                Y = Some y, D = Some d\<rparr>\<rparr>
                in (case json_Marshal_key lib newKey of
                      Inl err \<Rightarrow> (Return (Some err), ch)
                    | Inr v \<Rightarrow>
                        (case System_Save store
                                \<lparr>Name = SystemAsymmetricSigningKeyKey, Value = v\<rparr>
                                (srv_Store ch) of
                           (Some err, k) \<Rightarrow>
                             ensureAsymmetricSigningKey_reread store lib None
                               (ch\<lparr>srv_Store := k,
                                    mlog_Warn := mlog_Warn ch
                                      @ [(''Failed to save AsymmetricSigningKey'', err)]\<rparr>)
                         | (None, k) \<Rightarrow>
                             ensureAsymmetricSigningKey_reread store lib (Some newKey)
                               (ch\<lparr>srv_Store := k\<rparr>))))))"

text \<open>\<^verbatim>\<open>Channels.ensureAsymmetricSigningKey\<close>: the cache check and the first read.\<close>

definition ensureAsymmetricSigningKey ::
  "'k SqlStore \<Rightarrow> ('c, 'l) Lib \<Rightarrow> ('k, 'c, 'l) Channels
     \<Rightarrow> error option outcome \<times> ('k, 'c, 'l) Channels" where
  "ensureAsymmetricSigningKey store lib ch =
     (if AsymmetricSigningKey ch \<noteq> None then (Return None, ch)
      else
        (case System_GetByName store SystemAsymmetricSigningKeyKey (srv_Store ch) of
           (Inl err, k) \<Rightarrow>
             ensureAsymmetricSigningKey_generate store lib None (ch\<lparr>srv_Store := k\<rparr>)
         | (Inr value, k) \<Rightarrow>
             (case json_Unmarshal_key lib (Value value) of
                Inl err \<Rightarrow> (Return (Some err), ch\<lparr>srv_Store := k\<rparr>)
              | Inr key \<Rightarrow>
                  ensureAsymmetricSigningKey_generate store lib key
                    (ch\<lparr>srv_Store := k\<rparr>))))"

text \<open>
  \<^verbatim>\<open>Server.SaveConfig\<close> and \<^verbatim>\<open>App.SaveConfig\<close> hand the call to the wrapper.
\<close>

definition Server_SaveConfig ::
  "('s, 'a Config_scheme) Store \<Rightarrow> 'a Config_scheme \<Rightarrow> bool
     \<Rightarrow> ('s, 'a Config_scheme) Server
     \<Rightarrow> ('a Config_scheme option \<times> 'a Config_scheme option \<times> AppError option)
         \<times> ('s, 'a Config_scheme) Server" where
  "Server_SaveConfig store newCfg sendConfigChangeClusterMessage srv =
     SaveConfig store newCfg sendConfigChangeClusterMessage srv"

definition App_SaveConfig ::
  "('s, 'a Config_scheme) Store \<Rightarrow> 'a Config_scheme \<Rightarrow> bool
     \<Rightarrow> ('s, 'a Config_scheme) Server
     \<Rightarrow> ('a Config_scheme option \<times> 'a Config_scheme option \<times> AppError option)
         \<times> ('s, 'a Config_scheme) Server" where
  "App_SaveConfig store newCfg sendConfigChangeClusterMessage srv =
     Server_SaveConfig store newCfg sendConfigChangeClusterMessage srv"

text \<open>A call returns an error: it returns, and what it returns is not nil.\<close>

definition returns_error :: "error option outcome \<Rightarrow> bool" where
  "returns_error r = (case r of Return (Some err) \<Rightarrow> True | Return None \<Rightarrow> False | Panic \<Rightarrow> False)"

section \<open>Collaborators for the examples\<close>

text \<open>
  Modelled from the spec: the ConfigService of section 4.2, an instance of the store
  parameters. \<^verbatim>\<open>Save\<close> "validates and installs \<^verbatim>\<open>newDocument\<close> as active" and "fails with a
  forbidden condition if the store is read-only"; on a validation failure "the swap is
  rejected, the prior document remains active"; "each registered listener is invoked
  exactly once per successful configuration swap" (\<open>notified\<close> lists the pairs the
  listeners were invoked with). The validity check and the stripping of environment
  overrides are parameters.
\<close>

record 'c ConfigService =
  active :: 'c
  readOnly :: bool
  notified :: "('c \<times> 'c) list"

definition ConfigService_Set ::
  "('c \<Rightarrow> bool) \<Rightarrow> 'c \<Rightarrow> 'c ConfigService \<Rightarrow> (error + 'c \<times> 'c) \<times> 'c ConfigService" where
  "ConfigService_Set valid doc s =
     (if readOnly s then (Inl (Wrap ErrReadOnlyConfiguration ''failed to persist''), s)
      else if \<not> valid doc then (Inl (New ''new configuration is invalid''), s)
      else (Inr (active s, doc),
            s\<lparr>active := doc, notified := notified s @ [(active s, doc)]\<rparr>))"

definition ConfigService :: "('c \<Rightarrow> bool) \<Rightarrow> ('c \<Rightarrow> 'c) \<Rightarrow> ('c ConfigService, 'c) Store" where
  "ConfigService valid strip =
     \<lparr>Store_Get = active,
      Store_IsReadOnly = readOnly,
      Store_Set = ConfigService_Set valid,
      Store_RemoveEnvironmentOverrides = (\<lambda>s doc. strip doc)\<rparr>"

text \<open>
  Three documents, and a node whose environment overrides \<^verbatim>\<open>ExportFromTimestamp\<close>: a
  document without the override carries the value 0 there. A document is valid when
  metrics are off or export is on.
\<close>

definition docA :: Config where
  "docA = \<lparr>MetricsSettings = \<lparr>Enable = False\<rparr>,
           MessageExportSettings = \<lparr>EnableExport = False, ExportFromTimestamp = 7\<rparr>\<rparr>"

definition docB :: Config where
  "docB = \<lparr>MetricsSettings = \<lparr>Enable = True\<rparr>,
           MessageExportSettings = \<lparr>EnableExport = True, ExportFromTimestamp = 7\<rparr>\<rparr>"

definition docInvalid :: Config where
  "docInvalid = \<lparr>MetricsSettings = \<lparr>Enable = True\<rparr>,
                 MessageExportSettings = \<lparr>EnableExport = False, ExportFromTimestamp = 0\<rparr>\<rparr>"

definition exampleValid :: "Config \<Rightarrow> bool" where
  "exampleValid doc =
     (\<not> Enable (MetricsSettings doc) \<or> EnableExport (MessageExportSettings doc))"

definition exampleStrip :: "Config \<Rightarrow> Config" where
  "exampleStrip doc =
     doc\<lparr>MessageExportSettings := (MessageExportSettings doc)\<lparr>ExportFromTimestamp := 0\<rparr>\<rparr>"

definition exampleStore :: "(Config ConfigService, Config) Store" where
  "exampleStore = ConfigService exampleValid exampleStrip"

text \<open>A cluster transport that fails, and one that delivers.\<close>

definition clusterDown :: "Config \<Rightarrow> Config \<Rightarrow> bool \<Rightarrow> AppError option" where
  "clusterDown old new send =
     Some (NewAppError ''ConfigChanged'' ''ent.cluster.config_changed.error'' ''down'' 500)"

definition clusterUp :: "Config \<Rightarrow> Config \<Rightarrow> bool \<Rightarrow> AppError option" where
  "clusterUp old new send = None"

text \<open>
  A server on document \<open>docA\<close>, with the given read-only flag, \<^verbatim>\<open>startMetrics\<close> flag and
  cluster; a metrics implementation is present and nothing has been called yet.
\<close>

definition exampleServer ::
  "bool \<Rightarrow> bool \<Rightarrow> (Config \<Rightarrow> Config \<Rightarrow> bool \<Rightarrow> AppError option) option
     \<Rightarrow> (Config ConfigService, Config) Server" where
  "exampleServer ro sm cl =
     \<lparr>configStore = \<lparr>active = docA, readOnly = ro, notified = []\<rparr>,
      startMetrics = sm, Metrics = True, Cluster = cl, calls = []\<rparr>"

definition enableExport :: "Config \<Rightarrow> Config" where
  "enableExport doc =
     doc\<lparr>MessageExportSettings := (MessageExportSettings doc)\<lparr>EnableExport := True\<rparr>\<rparr>"

text \<open>
  Modelled from the spec: the PersistentKV of sections 2 and 6, an instance of the store
  parameters. \<^verbatim>\<open>GetByName\<close> gives the record or a not-found error; \<^verbatim>\<open>Save\<close> is
  insert-if-absent and "must fail distinguishably if a record with the same key already
  exists". \<open>peer\<close> holds the records a peer node inserts before this node's next \<^verbatim>\<open>Save\<close>
  reaches the store: the race of section 4.1.
\<close>

record PersistentKV =
  records :: "string \<rightharpoonup> string"
  peer :: "System list"

definition insert_if_absent ::
  "System \<Rightarrow> (string \<rightharpoonup> string) \<Rightarrow> error option \<times> (string \<rightharpoonup> string)" where
  "insert_if_absent sys m =
     (case m (Name sys) of
        None \<Rightarrow> (None, m(Name sys \<mapsto> Value sys))
      | Some v \<Rightarrow> (Some (New ''duplicate key''), m))"

definition PersistentKV_GetByName ::
  "string \<Rightarrow> PersistentKV \<Rightarrow> (error + System) \<times> PersistentKV" where
  "PersistentKV_GetByName name s =
     (case records s name of
        None \<Rightarrow> (Inl (New ''not found''), s)
      | Some v \<Rightarrow> (Inr \<lparr>Name = name, Value = v\<rparr>, s))"

definition PersistentKV_Save :: "System \<Rightarrow> PersistentKV \<Rightarrow> error option \<times> PersistentKV" where
  "PersistentKV_Save sys s =
     (let m = foldl (\<lambda>m p. snd (insert_if_absent p m)) (records s) (peer s);
          (err, m') = insert_if_absent sys m
      in (err, \<lparr>records = m', peer = []\<rparr>))"

definition exampleKV :: "PersistentKV SqlStore" where
  "exampleKV =
     \<lparr>System_GetByName = PersistentKV_GetByName,
      System_Save = PersistentKV_Save,
      TermsOfService_GetLatest = (\<lambda>allowFromCache s. (Inl (New ''not found''), s))\<rparr>"

text \<open>
  An instance of the library parameters on a handful of record texts. A cookie record
  is \<^verbatim>\<open>null\<close>, the text \<^verbatim>\<open>mine\<close> (the secret this node generates) or \<^verbatim>\<open>theirs\<close> (a peer's);
  a key record is \<^verbatim>\<open>null\<close>, \<^verbatim>\<open>{}\<close>, or the name of its curve; anything else does not
  decode.
\<close>

definition exampleUnmarshal_secret :: "string \<Rightarrow> error + SystemPostActionCookieSecret option" where
  "exampleUnmarshal_secret v =
     (if v = ''null'' then Inr None
      else if v = ''mine'' then Inr (Some \<lparr>Secret = Some (replicate 32 1)\<rparr>)
      else if v = ''theirs'' then Inr (Some \<lparr>Secret = Some (replicate 32 2)\<rparr>)
      else Inl (New ''invalid character''))"

definition exampleUnmarshal_key :: "string \<Rightarrow> error + SystemAsymmetricSigningKey option" where
  "exampleUnmarshal_key v =
     (if v = ''null'' then Inr None
      else if v = ''{}'' then Inr (Some \<lparr>ECDSAKey = None\<rparr>)
      else if v = ''P-256'' \<or> v = ''P-384''
      then Inr (Some \<lparr>ECDSAKey = Some \<lparr>Curve = v, X = Some 1, Y = Some 2, D = Some 3\<rparr>\<rparr>)
      else Inl (New ''invalid character''))"

definition exampleLib :: "(Config, unit) Lib" where
  "exampleLib =
     \<lparr>rand_Reader_Read = (\<lambda>n. Inr (replicate n 1)),
      ecdsa_GenerateKey = Inr (1, 2, 3),
      json_Marshal_secret = (\<lambda>sec. Inr ''mine''),
      json_Unmarshal_secret = exampleUnmarshal_secret,
      json_Marshal_key = (\<lambda>key. Inr ''P-256''),
      json_Unmarshal_key = exampleUnmarshal_key,
      json_Marshal_map = (\<lambda>m. []),
      md5_Sum = (\<lambda>b. replicate 16 0),
      x509_MarshalPKIXPublicKey = (\<lambda>pub. []),
      base64_EncodeToString = (\<lambda>b. []),
      GenerateClientConfig = (\<lambda>cfg telemetryId license. Map.empty),
      GenerateLimitedClientConfig = (\<lambda>cfg telemetryId license. Map.empty)\<rparr>"

text \<open>
  Channels with nothing cached, on a store that holds the given records and to which a
  peer is about to add the given ones.
\<close>

definition exampleChannels ::
  "(string \<rightharpoonup> string) \<Rightarrow> System list \<Rightarrow> (PersistentKV, Config, unit) Channels" where
  "exampleChannels recs ps =
     \<lparr>srv_Store = \<lparr>records = recs, peer = ps\<rparr>,
      cfgSvc_Config = docA,
      srv_TelemetryId = ''telemetry'',
      srv_License = (),
      postActionCookieSecret = None,
      asymmetricSigningKey = None,
      clientConfig = None,
      limitedClientConfig = None,
      clientConfigHash = None,
      mlog_Warn = []\<rparr>"

text \<open>The calls that go to the cluster, and those that go to the metrics.\<close>

fun is_cluster_call :: "'c call \<Rightarrow> bool" where
  "is_cluster_call (Cluster_ConfigChanged old new send) = True"
| "is_cluster_call c = False"

fun is_metrics_call :: "'c call \<Rightarrow> bool" where
  "is_metrics_call Metrics_Register = True"
| "is_metrics_call SetupMetricsServer = True"
| "is_metrics_call StopMetricsServer = True"
| "is_metrics_call c = False"

text \<open>
  The conditions of the fallback read, on what \<^verbatim>\<open>GetByName\<close> gave: the first read yields no
  secret when it fails or its record decodes to a nil pointer; the fallback read or the
  decode of its result fails; the record decodes to a key that names a curve other than
  P-256.
\<close>

definition no_secret_read ::
  "(string \<Rightarrow> error + 'a option) \<Rightarrow> error + System \<Rightarrow> bool" where
  "no_secret_read unmarshal r =
     (case r of Inl err \<Rightarrow> True | Inr value \<Rightarrow> unmarshal (Value value) = Inr None)"

definition read_or_decode_fails ::
  "(string \<Rightarrow> error + 'a option) \<Rightarrow> error + System \<Rightarrow> bool" where
  "read_or_decode_fails unmarshal r =
     (case r of Inl err \<Rightarrow> True | Inr value \<Rightarrow> isl (unmarshal (Value value)))"

definition names_unknown_curve ::
  "(string \<Rightarrow> error + SystemAsymmetricSigningKey option) \<Rightarrow> error + System \<Rightarrow> bool" where
  "names_unknown_curve unmarshal r =
     (case r of
        Inl err \<Rightarrow> False
      | Inr value \<Rightarrow>
          (case unmarshal (Value value) of
             Inl err \<Rightarrow> False
           | Inr None \<Rightarrow> False
           | Inr (Some key) \<Rightarrow>
               (case ECDSAKey key of None \<Rightarrow> False | Some ec \<Rightarrow> Curve ec \<noteq> ''P-256'')))"

section \<open>Properties of HandleMessageExportConfig\<close>

text \<open>
  Claim C8. For every pair of documents, \<^verbatim>\<open>HandleMessageExportConfig(cfg, appCfg)\<close>
  rewrites nothing of \<^verbatim>\<open>cfg\<close> but \<^verbatim>\<open>MessageExportSettings.ExportFromTimestamp\<close>. When
  \<^verbatim>\<open>EnableExport\<close> goes from false (in \<^verbatim>\<open>appCfg\<close>) to true (in \<^verbatim>\<open>cfg\<close>) and the timestamp is 0,
  the timestamp becomes the current time in milliseconds; when \<^verbatim>\<open>EnableExport\<close> goes from
  true to false, it becomes 0; when \<^verbatim>\<open>EnableExport\<close> is the same in both, it is left as
  it was.
\<close>

theorem HandleMessageExportConfig_rewrites_timestamp:
  "HandleMessageExportConfig now cfg appCfg =
     cfg\<lparr>MessageExportSettings := (MessageExportSettings cfg)
        \<lparr>ExportFromTimestamp :=
           ExportFromTimestamp (MessageExportSettings (HandleMessageExportConfig now cfg appCfg))\<rparr>\<rparr>
   \<and> (\<not> EnableExport (MessageExportSettings appCfg) \<and> EnableExport (MessageExportSettings cfg)
        \<and> ExportFromTimestamp (MessageExportSettings cfg) = 0
      \<longrightarrow> ExportFromTimestamp (MessageExportSettings (HandleMessageExportConfig now cfg appCfg))
          = now)
   \<and> (EnableExport (MessageExportSettings appCfg) \<and> \<not> EnableExport (MessageExportSettings cfg)
      \<longrightarrow> ExportFromTimestamp (MessageExportSettings (HandleMessageExportConfig now cfg appCfg))
          = 0)
   \<and> (EnableExport (MessageExportSettings appCfg) = EnableExport (MessageExportSettings cfg)
      \<longrightarrow> ExportFromTimestamp (MessageExportSettings (HandleMessageExportConfig now cfg appCfg))
          = ExportFromTimestamp (MessageExportSettings cfg))"
  by (simp add: HandleMessageExportConfig_def)

text \<open>
  The three cases at concrete documents: export switched on with timestamp 0, export
  switched off, and export left off.
\<close>

theorem HandleMessageExportConfig_rewrites_timestamp_witness:
  "(\<not> EnableExport (MessageExportSettings docA)
      \<and> EnableExport (MessageExportSettings (enableExport docInvalid))
      \<and> ExportFromTimestamp (MessageExportSettings (enableExport docInvalid)) = 0
      \<and> ExportFromTimestamp (MessageExportSettings
            (HandleMessageExportConfig 1700000000000 (enableExport docInvalid) docA))
          = 1700000000000)
   \<and> (EnableExport (MessageExportSettings docB)
      \<and> \<not> EnableExport (MessageExportSettings docA)
      \<and> ExportFromTimestamp (MessageExportSettings docA) = 7
      \<and> ExportFromTimestamp (MessageExportSettings
            (HandleMessageExportConfig 1700000000000 docA docB)) = 0)
   \<and> (EnableExport (MessageExportSettings docInvalid)
        = EnableExport (MessageExportSettings docA)
      \<and> ExportFromTimestamp (MessageExportSettings
            (HandleMessageExportConfig 1700000000000 docA docInvalid)) = 7)"
  using HandleMessageExportConfig_rewrites_timestamp
          [of 1700000000000 "enableExport docInvalid" docA]
        HandleMessageExportConfig_rewrites_timestamp [of 1700000000000 docA docB]
        HandleMessageExportConfig_rewrites_timestamp [of 1700000000000 docA docInvalid]
  by (simp add: docA_def docB_def docInvalid_def enableExport_def)

section \<open>Properties of UpdateConfig and SaveConfig\<close>

lemma SaveConfig_Set_fails:
  assumes "Store_Set store newCfg (configStore srv) = (Inl err, s')"
  shows "SaveConfig store newCfg b srv =
     ((None, None,
       Some (NewAppError ''saveConfig''
              (if Cause err = ErrReadOnlyConfiguration then ''ent.cluster.save_config.error''
               else ''app.save_config.app_error'')
              (Error err)
              (if Cause err = ErrReadOnlyConfiguration then StatusForbidden
               else StatusInternalServerError))),
      srv\<lparr>configStore := s'\<rparr>)"
  using assms by (simp add: SaveConfig_def)

lemma toggleMetrics_calls:
  "toggleMetrics store srv =
     srv\<lparr>calls := calls srv @
        (if startMetrics srv \<and> Enable (MetricsSettings (Config store srv))
         then (if Metrics srv then [Metrics_Register, SetupMetricsServer]
               else [SetupMetricsServer])
         else [StopMetricsServer])\<rparr>"
  by (simp add: toggleMetrics_def called_def)

lemma SaveConfig_Set_succeeds:
  assumes "Store_Set store newCfg (configStore srv) = (Inr (oldCfg, newCfg'), s')"
  shows "SaveConfig store newCfg b srv =
     (case Cluster srv of
        None \<Rightarrow> ((Some oldCfg, Some newCfg', None), toggleMetrics store (srv\<lparr>configStore := s'\<rparr>))
      | Some ConfigChanged \<Rightarrow>
          ((case ConfigChanged (Store_RemoveEnvironmentOverrides store s' oldCfg)
                   (Store_RemoveEnvironmentOverrides store s' newCfg') b of
              Some err \<Rightarrow> (None, None, Some err)
            | None \<Rightarrow> (Some oldCfg, Some newCfg', None)),
           called (Cluster_ConfigChanged (Store_RemoveEnvironmentOverrides store s' oldCfg)
                     (Store_RemoveEnvironmentOverrides store s' newCfg') b)
             (toggleMetrics store (srv\<lparr>configStore := s'\<rparr>))))"
  using assms
  by (simp add: SaveConfig_def toggleMetrics_def called_def Let_def split: option.splits)

text \<open>A call that returns no error returns the two documents \<^verbatim>\<open>Set\<close> gave.\<close>

lemma SaveConfig_success_Set:
  assumes "SaveConfig store newCfg b srv = ((Some oldCfg, Some newCfg', None), srv')"
  shows "Store_Set store newCfg (configStore srv) = (Inr (oldCfg, newCfg'), configStore srv')"
proof (cases "Store_Set store newCfg (configStore srv)")
  case (Pair r s')
  show ?thesis
  proof (cases r)
    case (Inl err)
    with Pair assms show ?thesis
      by (simp add: SaveConfig_Set_fails)
  next
    case (Inr docs)
    obtain old new where docs: "docs = (old, new)"
      by (cases docs)
    from Pair Inr docs assms show ?thesis
      by (auto simp add: SaveConfig_Set_succeeds toggleMetrics_calls called_def
               split: option.splits)
  qed
qed

text \<open>
  Claim C5. For every mutator \<open>f\<close>, \<^verbatim>\<open>UpdateConfig(f)\<close> on a read-only store leaves the
  active document as it was, invokes no listener, and invokes neither \<open>f\<close> nor the
  store's \<^verbatim>\<open>Set\<close>: the server afterwards, with the whole state of its store and the calls
  made on its collaborators, is the server before, whatever \<open>f\<close> and \<^verbatim>\<open>Set\<close> would do.
\<close>

theorem UpdateConfig_read_only:
  assumes "Store_IsReadOnly store (configStore srv)"
  shows "UpdateConfig store f srv = srv
         \<and> Config store (UpdateConfig store f srv) = Config store srv
         \<and> configStore (UpdateConfig store f srv) = configStore srv
         \<and> calls (UpdateConfig store f srv) = calls srv"
  using assms by (simp add: UpdateConfig_def)

text \<open>
  On the read-only example server the mutator that enables export changes nothing: the
  document is \<open>docA\<close> and no listener was notified.
\<close>

theorem UpdateConfig_read_only_witness:
  "Store_IsReadOnly exampleStore (configStore (exampleServer True False None))
   \<and> UpdateConfig exampleStore enableExport (exampleServer True False None)
       = exampleServer True False None
   \<and> Config exampleStore (UpdateConfig exampleStore enableExport (exampleServer True False None))
       = docA
   \<and> notified (configStore
        (UpdateConfig exampleStore enableExport (exampleServer True False None))) = []"
proof -
  have ro: "Store_IsReadOnly exampleStore (configStore (exampleServer True False None))"
    by (simp add: exampleStore_def ConfigService_def exampleServer_def)
  from UpdateConfig_read_only [OF ro, of enableExport] ro show ?thesis
    by (simp add: exampleStore_def ConfigService_def exampleServer_def Config_def)
qed
text \<open>
  Claim C6. When the store's \<^verbatim>\<open>Set\<close> fails, \<^verbatim>\<open>SaveConfig\<close> returns an \<^verbatim>\<open>AppError\<close> and no
  documents: with HTTP status 403 and the id \<^verbatim>\<open>ent.cluster.save_config.error\<close> if the cause
  of the failure is the read-only-configuration error, with status 500 for any other
  failure. In both cases no cluster notification is attempted (no call at all is made on
  the metrics or the cluster), and nothing touches the store after the failed \<^verbatim>\<open>Set\<close>: the
  active document is the one that call left, the prior document when the failed \<^verbatim>\<open>Set\<close>
  left it in place.
\<close>

theorem SaveConfig_Set_failure:
  assumes "Store_Set store newCfg (configStore srv) = (Inl err, s')"
  shows "(Cause err = ErrReadOnlyConfiguration \<longrightarrow>
            (\<exists>appErr. fst (SaveConfig store newCfg b srv) = (None, None, Some appErr)
               \<and> StatusCode appErr = 403 \<and> Id appErr = ''ent.cluster.save_config.error''))
         \<and> (Cause err \<noteq> ErrReadOnlyConfiguration \<longrightarrow>
            (\<exists>appErr. fst (SaveConfig store newCfg b srv) = (None, None, Some appErr)
               \<and> StatusCode appErr = 500))
         \<and> calls (snd (SaveConfig store newCfg b srv)) = calls srv
         \<and> configStore (snd (SaveConfig store newCfg b srv)) = s'
         \<and> (Store_Get store s' = Store_Get store (configStore srv) \<longrightarrow>
              Config store (snd (SaveConfig store newCfg b srv)) = Config store srv)"
  by (simp add: SaveConfig_Set_fails [OF assms] NewAppError_def StatusForbidden_def
        StatusInternalServerError_def Config_def)

text \<open>
  Saving \<open>docB\<close> on the read-only example server gives status 403, saving the invalid
  document on the writable one gives status 500; the cluster is never called and the
  document stays \<open>docA\<close>.
\<close>

theorem SaveConfig_Set_failure_witness:
  "Store_Set exampleStore docB (configStore (exampleServer True True (Some clusterUp)))
     = (Inl (Wrap ErrReadOnlyConfiguration ''failed to persist''),
        configStore (exampleServer True True (Some clusterUp)))
   \<and> Cause (Wrap ErrReadOnlyConfiguration ''failed to persist'') = ErrReadOnlyConfiguration
   \<and> (\<exists>appErr. fst (SaveConfig exampleStore docB True (exampleServer True True (Some clusterUp)))
                  = (None, None, Some appErr)
         \<and> StatusCode appErr = 403 \<and> Id appErr = ''ent.cluster.save_config.error'')
   \<and> calls (snd (SaveConfig exampleStore docB True (exampleServer True True (Some clusterUp))))
       = []
   \<and> Config exampleStore
        (snd (SaveConfig exampleStore docB True (exampleServer True True (Some clusterUp))))
       = docA
   \<and> Store_Set exampleStore docInvalid (configStore (exampleServer False True (Some clusterUp)))
       = (Inl (New ''new configuration is invalid''),
          configStore (exampleServer False True (Some clusterUp)))
   \<and> Cause (New ''new configuration is invalid'') \<noteq> ErrReadOnlyConfiguration
   \<and> (\<exists>appErr. fst (SaveConfig exampleStore docInvalid True
                        (exampleServer False True (Some clusterUp)))
                  = (None, None, Some appErr)
         \<and> StatusCode appErr = 500)
   \<and> calls (snd (SaveConfig exampleStore docInvalid True
                    (exampleServer False True (Some clusterUp)))) = []
   \<and> Config exampleStore
        (snd (SaveConfig exampleStore docInvalid True
                (exampleServer False True (Some clusterUp))))
       = docA"
proof -
  have ro: "Store_Set exampleStore docB (configStore (exampleServer True True (Some clusterUp)))
     = (Inl (Wrap ErrReadOnlyConfiguration ''failed to persist''),
        configStore (exampleServer True True (Some clusterUp)))"
    by (simp add: exampleStore_def ConfigService_def ConfigService_Set_def exampleServer_def)
  have inv: "Store_Set exampleStore docInvalid
               (configStore (exampleServer False True (Some clusterUp)))
     = (Inl (New ''new configuration is invalid''),
        configStore (exampleServer False True (Some clusterUp)))"
    by (simp add: exampleStore_def ConfigService_def ConfigService_Set_def exampleServer_def
          exampleValid_def docInvalid_def)
  have get: "Config exampleStore (exampleServer ro sm cl) = docA" for ro sm cl
    by (simp add: Config_def exampleStore_def ConfigService_def exampleServer_def)
  have cs: "calls (exampleServer ro sm cl) = []" for ro sm cl
    by (simp add: exampleServer_def)
  from SaveConfig_Set_failure [OF ro, of True] SaveConfig_Set_failure [OF inv, of True]
    ro inv get cs
  show ?thesis
    by simp
qed

text \<open>
  Claim C2. When \<^verbatim>\<open>SaveConfig(validDocument, true)\<close> finds the store's \<^verbatim>\<open>Set\<close> succeeding
  (it has installed \<^verbatim>\<open>validDocument\<close> as the active document) and the cluster's
  \<^verbatim>\<open>ConfigChanged\<close> reporting an error, it returns that error, and the swap stays
  committed: \<^verbatim>\<open>Config()\<close> afterwards is \<^verbatim>\<open>validDocument\<close>. The same holds for either value
  of the broadcast flag.
\<close>

theorem SaveConfig_cluster_failure_no_rollback:
  assumes "Store_Set store validDocument (configStore srv) = (Inr (oldCfg, newCfg'), s')"
    and "Store_Get store s' = validDocument"
    and "Cluster srv = Some ConfigChanged"
    and "ConfigChanged (Store_RemoveEnvironmentOverrides store s' oldCfg)
           (Store_RemoveEnvironmentOverrides store s' newCfg') b = Some appErr"
  shows "fst (SaveConfig store validDocument b srv) = (None, None, Some appErr)
         \<and> Config store (snd (SaveConfig store validDocument b srv)) = validDocument"
  using assms(2-4)
  by (simp add: SaveConfig_Set_succeeds [OF assms(1)] toggleMetrics_calls called_def Config_def)

text \<open>
  Saving \<open>docB\<close> with broadcast on the example server whose cluster transport is down:
  an error comes back, and the active document is \<open>docB\<close>, not the prior \<open>docA\<close>.
\<close>

theorem SaveConfig_cluster_failure_no_rollback_witness:
  "Store_Set exampleStore docB (configStore (exampleServer False True (Some clusterDown)))
     = (Inr (docA, docB), \<lparr>active = docB, readOnly = False, notified = [(docA, docB)]\<rparr>)
   \<and> Config exampleStore (exampleServer False True (Some clusterDown)) = docA
   \<and> docA \<noteq> docB
   \<and> fst (SaveConfig exampleStore docB True (exampleServer False True (Some clusterDown)))
       = (None, None,
          Some (NewAppError ''ConfigChanged'' ''ent.cluster.config_changed.error'' ''down'' 500))
   \<and> Config exampleStore
        (snd (SaveConfig exampleStore docB True (exampleServer False True (Some clusterDown))))
       = docB"
proof -
  have set: "Store_Set exampleStore docB (configStore (exampleServer False True (Some clusterDown)))
     = (Inr (docA, docB), \<lparr>active = docB, readOnly = False, notified = [(docA, docB)]\<rparr>)"
    by (simp add: exampleStore_def ConfigService_def ConfigService_Set_def exampleServer_def
          exampleValid_def docB_def)
  have get: "Store_Get exampleStore \<lparr>active = docB, readOnly = False, notified = [(docA, docB)]\<rparr>
               = docB"
    by (simp add: exampleStore_def ConfigService_def)
  have cl: "Cluster (exampleServer False True (Some clusterDown)) = Some clusterDown"
    by (simp add: exampleServer_def)
  have down: "clusterDown
      (Store_RemoveEnvironmentOverrides exampleStore
         \<lparr>active = docB, readOnly = False, notified = [(docA, docB)]\<rparr> docA)
      (Store_RemoveEnvironmentOverrides exampleStore
         \<lparr>active = docB, readOnly = False, notified = [(docA, docB)]\<rparr> docB) True
     = Some (NewAppError ''ConfigChanged'' ''ent.cluster.config_changed.error'' ''down'' 500)"
    by (simp add: clusterDown_def)
  have prior: "Config exampleStore (exampleServer False True (Some clusterDown)) = docA"
    by (simp add: Config_def exampleStore_def ConfigService_def exampleServer_def)
  have neq: "docA \<noteq> docB"
    by (simp add: docA_def docB_def)
  from SaveConfig_cluster_failure_no_rollback [OF set get cl down] set prior neq
  show ?thesis
    by simp
qed

text \<open>
  Claim C10. When the local swap succeeds and the cluster's \<^verbatim>\<open>ConfigChanged\<close> fails,
  \<^verbatim>\<open>Server.SaveConfig\<close> returns nil for the old and for the new document and a non-nil
  error, although the store is in the state the successful \<^verbatim>\<open>Set\<close> left: the return value
  carries neither the previous nor the current document.
\<close>

theorem Server_SaveConfig_cluster_failure_returns_nil:
  assumes "Store_Set store newCfg (configStore srv) = (Inr (oldCfg, newCfg'), s')"
    and "Cluster srv = Some ConfigChanged"
    and "ConfigChanged (Store_RemoveEnvironmentOverrides store s' oldCfg)
           (Store_RemoveEnvironmentOverrides store s' newCfg') b \<noteq> None"
  shows "fst (fst (Server_SaveConfig store newCfg b srv)) = None
         \<and> fst (snd (fst (Server_SaveConfig store newCfg b srv))) = None
         \<and> snd (snd (fst (Server_SaveConfig store newCfg b srv))) \<noteq> None
         \<and> configStore (snd (Server_SaveConfig store newCfg b srv)) = s'"
  using assms(2-3)
  by (auto simp add: Server_SaveConfig_def SaveConfig_Set_succeeds [OF assms(1)]
        toggleMetrics_calls called_def)

text \<open>
  On the example server with the cluster transport down, saving \<open>docB\<close> without
  broadcast returns two nil documents, while the store holds \<open>docB\<close> and has notified its
  listeners of the swap.
\<close>

theorem Server_SaveConfig_cluster_failure_returns_nil_witness:
  "Store_Set exampleStore docB (configStore (exampleServer False False (Some clusterDown)))
     = (Inr (docA, docB), \<lparr>active = docB, readOnly = False, notified = [(docA, docB)]\<rparr>)
   \<and> fst (fst (Server_SaveConfig exampleStore docB False
                  (exampleServer False False (Some clusterDown)))) = None
   \<and> fst (snd (fst (Server_SaveConfig exampleStore docB False
                       (exampleServer False False (Some clusterDown))))) = None
   \<and> snd (snd (fst (Server_SaveConfig exampleStore docB False
                       (exampleServer False False (Some clusterDown))))) \<noteq> None
   \<and> configStore (snd (Server_SaveConfig exampleStore docB False
                          (exampleServer False False (Some clusterDown))))
       = \<lparr>active = docB, readOnly = False, notified = [(docA, docB)]\<rparr>"
proof -
  have set: "Store_Set exampleStore docB
               (configStore (exampleServer False False (Some clusterDown)))
     = (Inr (docA, docB), \<lparr>active = docB, readOnly = False, notified = [(docA, docB)]\<rparr>)"
    by (simp add: exampleStore_def ConfigService_def ConfigService_Set_def exampleServer_def
          exampleValid_def docB_def)
  have cl: "Cluster (exampleServer False False (Some clusterDown)) = Some clusterDown"
    by (simp add: exampleServer_def)
  have down: "clusterDown
      (Store_RemoveEnvironmentOverrides exampleStore
         \<lparr>active = docB, readOnly = False, notified = [(docA, docB)]\<rparr> docA)
      (Store_RemoveEnvironmentOverrides exampleStore
         \<lparr>active = docB, readOnly = False, notified = [(docA, docB)]\<rparr> docB) False
     \<noteq> None"
    by (simp add: clusterDown_def)
  from Server_SaveConfig_cluster_failure_returns_nil [OF set cl down] set
  show ?thesis
    by simp
qed
text \<open>The calls a \<^verbatim>\<open>SaveConfig\<close> that returns no error has made, in order.\<close>

lemma SaveConfig_success_calls:
  assumes "SaveConfig store newCfg b srv = ((Some oldCfg, Some newCfg', None), srv')"
  shows "calls srv' = calls srv
           @ (if startMetrics srv \<and> Enable (MetricsSettings (Config store srv'))
              then (if Metrics srv then [Metrics_Register, SetupMetricsServer]
                    else [SetupMetricsServer])
              else [StopMetricsServer])
           @ (case Cluster srv of
                None \<Rightarrow> []
              | Some ConfigChanged \<Rightarrow>
                  [Cluster_ConfigChanged
                     (Store_RemoveEnvironmentOverrides store (configStore srv') oldCfg)
                     (Store_RemoveEnvironmentOverrides store (configStore srv') newCfg') b])"
proof -
  note set = SaveConfig_success_Set [OF assms]
  have "srv' = snd (SaveConfig store newCfg b srv)"
    by (simp add: assms)
  also have "\<dots> =
      (case Cluster srv of
         None \<Rightarrow> toggleMetrics store (srv\<lparr>configStore := configStore srv'\<rparr>)
       | Some ConfigChanged \<Rightarrow>
           called (Cluster_ConfigChanged
                     (Store_RemoveEnvironmentOverrides store (configStore srv') oldCfg)
                     (Store_RemoveEnvironmentOverrides store (configStore srv') newCfg') b)
             (toggleMetrics store (srv\<lparr>configStore := configStore srv'\<rparr>)))"
    by (simp add: SaveConfig_Set_succeeds [OF set] split: option.splits)
  finally have srv': "srv' =
      (case Cluster srv of
         None \<Rightarrow> toggleMetrics store (srv\<lparr>configStore := configStore srv'\<rparr>)
       | Some ConfigChanged \<Rightarrow>
           called (Cluster_ConfigChanged
                     (Store_RemoveEnvironmentOverrides store (configStore srv') oldCfg)
                     (Store_RemoveEnvironmentOverrides store (configStore srv') newCfg') b)
             (toggleMetrics store (srv\<lparr>configStore := configStore srv'\<rparr>)))" .
  have "calls srv' = calls
      (case Cluster srv of
         None \<Rightarrow> toggleMetrics store (srv\<lparr>configStore := configStore srv'\<rparr>)
       | Some ConfigChanged \<Rightarrow>
           called (Cluster_ConfigChanged
                     (Store_RemoveEnvironmentOverrides store (configStore srv') oldCfg)
                     (Store_RemoveEnvironmentOverrides store (configStore srv') newCfg') b)
             (toggleMetrics store (srv\<lparr>configStore := configStore srv'\<rparr>)))"
    using srv' by simp
  then show ?thesis
    by (simp add: toggleMetrics_calls called_def Config_def split: option.splits)
qed

text \<open>
  Claim C7. After every successful \<^verbatim>\<open>SaveConfig\<close> on a server with a cluster, the one
  \<^verbatim>\<open>ConfigChanged\<close> notification made carries \<^verbatim>\<open>RemoveEnvironmentOverrides\<close> of the old document
  and \<^verbatim>\<open>RemoveEnvironmentOverrides\<close> of the new document, never a document as \<^verbatim>\<open>Set\<close> returned
  it: what reaches the cluster is free of environment overrides as far as
  \<^verbatim>\<open>RemoveEnvironmentOverrides\<close> removes them.
\<close>

theorem SaveConfig_notifies_without_environment_overrides:
  assumes "Cluster srv = Some ConfigChanged"
    and "SaveConfig store newCfg b srv = ((Some oldCfg, Some newCfg', None), srv')"
  shows "filter is_cluster_call (drop (length (calls srv)) (calls srv')) =
           [Cluster_ConfigChanged
              (Store_RemoveEnvironmentOverrides store (configStore srv') oldCfg)
              (Store_RemoveEnvironmentOverrides store (configStore srv') newCfg') b]"
  using assms(1) by (simp add: SaveConfig_success_calls [OF assms(2)])

text \<open>
  On the example server with a working cluster, saving \<open>docB\<close> (timestamp 7, an
  environment override) notifies the cluster with documents whose timestamp is the
  file's 0.
\<close>

theorem SaveConfig_notifies_without_environment_overrides_witness:
  "Cluster (exampleServer False True (Some clusterUp)) = Some clusterUp
   \<and> fst (SaveConfig exampleStore docB True (exampleServer False True (Some clusterUp)))
       = (Some docA, Some docB, None)
   \<and> filter is_cluster_call
        (drop (length (calls (exampleServer False True (Some clusterUp))))
           (calls (snd (SaveConfig exampleStore docB True
                          (exampleServer False True (Some clusterUp))))))
       = [Cluster_ConfigChanged (exampleStrip docA) (exampleStrip docB) True]
   \<and> ExportFromTimestamp (MessageExportSettings docB) = 7
   \<and> ExportFromTimestamp (MessageExportSettings (exampleStrip docB)) = 0"
proof -
  have cl: "Cluster (exampleServer False True (Some clusterUp)) = Some clusterUp"
    by (simp add: exampleServer_def)
  have set: "Store_Set exampleStore docB (configStore (exampleServer False True (Some clusterUp)))
     = (Inr (docA, docB), \<lparr>active = docB, readOnly = False, notified = [(docA, docB)]\<rparr>)"
    by (simp add: exampleStore_def ConfigService_def ConfigService_Set_def exampleServer_def
          exampleValid_def docB_def)
  have ok: "fst (SaveConfig exampleStore docB True (exampleServer False True (Some clusterUp)))
              = (Some docA, Some docB, None)"
    by (simp add: SaveConfig_Set_succeeds [OF set] cl clusterUp_def)
  then have save: "SaveConfig exampleStore docB True (exampleServer False True (Some clusterUp))
     = ((Some docA, Some docB, None),
        snd (SaveConfig exampleStore docB True (exampleServer False True (Some clusterUp))))"
    by (simp add: prod_eq_iff)
  have strip: "Store_RemoveEnvironmentOverrides exampleStore s doc = exampleStrip doc" for s doc
    by (simp add: exampleStore_def ConfigService_def)
  have ts: "ExportFromTimestamp (MessageExportSettings docB) = 7"
    "ExportFromTimestamp (MessageExportSettings (exampleStrip docB)) = 0"
    by (simp_all add: docB_def exampleStrip_def)
  from SaveConfig_notifies_without_environment_overrides [OF cl save] cl ok strip ts
  show ?thesis
    by simp
qed

text \<open>
  Claim C9 as stated fails: \<^verbatim>\<open>SaveConfig\<close> also tests \<^verbatim>\<open>srv.startMetrics\<close>. On the example
  server started without metrics, saving \<open>docB\<close>, in which \<^verbatim>\<open>MetricsSettings.Enable\<close> is
  true, succeeds and stops the metrics server instead of setting it up.
\<close>

theorem SaveConfig_metrics_enabled_counterexample:
  "fst (SaveConfig exampleStore docB True (exampleServer False False None))
     = (Some docA, Some docB, None)
   \<and> Enable (MetricsSettings docB)
   \<and> Config exampleStore (snd (SaveConfig exampleStore docB True (exampleServer False False None)))
       = docB
   \<and> calls (snd (SaveConfig exampleStore docB True (exampleServer False False None)))
       = [StopMetricsServer]"
  by (simp add: SaveConfig_def toggleMetrics_def called_def Config_def exampleStore_def
        ConfigService_def ConfigService_Set_def exampleServer_def exampleValid_def docB_def)

text \<open>
  Claim C9, amended. After every successful \<^verbatim>\<open>SaveConfig\<close> the metrics calls made are
  decided by \<^verbatim>\<open>srv.startMetrics\<close> together with \<^verbatim>\<open>MetricsSettings.Enable\<close> of the active
  document: when both are true, \<^verbatim>\<open>Metrics.Register\<close> is called if a metrics implementation
  is present and then the metrics server is set up; when \<^verbatim>\<open>startMetrics\<close> is false or
  \<^verbatim>\<open>Enable\<close> is false, the metrics server is stopped.
\<close>

theorem SaveConfig_toggles_metrics:
  assumes "SaveConfig store newCfg b srv = ((Some oldCfg, Some newCfg', None), srv')"
  shows "filter is_metrics_call (drop (length (calls srv)) (calls srv')) =
           (if startMetrics srv \<and> Enable (MetricsSettings (Config store srv'))
            then (if Metrics srv then [Metrics_Register, SetupMetricsServer]
                  else [SetupMetricsServer])
            else [StopMetricsServer])"
  by (simp add: SaveConfig_success_calls [OF assms] split: option.splits)

text \<open>
  On the example server started with metrics, saving \<open>docB\<close> registers the metrics and
  sets the metrics server up.
\<close>

theorem SaveConfig_toggles_metrics_witness:
  "fst (SaveConfig exampleStore docB True (exampleServer False True None))
     = (Some docA, Some docB, None)
   \<and> startMetrics (exampleServer False True None)
   \<and> Enable (MetricsSettings (Config exampleStore
        (snd (SaveConfig exampleStore docB True (exampleServer False True None)))))
   \<and> filter is_metrics_call
        (drop (length (calls (exampleServer False True None)))
           (calls (snd (SaveConfig exampleStore docB True (exampleServer False True None)))))
       = [Metrics_Register, SetupMetricsServer]"
proof -
  have set: "Store_Set exampleStore docB (configStore (exampleServer False True None))
     = (Inr (docA, docB), \<lparr>active = docB, readOnly = False, notified = [(docA, docB)]\<rparr>)"
    by (simp add: exampleStore_def ConfigService_def ConfigService_Set_def exampleServer_def
          exampleValid_def docB_def)
  have cl: "Cluster (exampleServer False True None) = None"
    by (simp add: exampleServer_def)
  have ok: "fst (SaveConfig exampleStore docB True (exampleServer False True None))
              = (Some docA, Some docB, None)"
    by (simp add: SaveConfig_Set_succeeds [OF set] cl)
  then have save: "SaveConfig exampleStore docB True (exampleServer False True None)
     = ((Some docA, Some docB, None),
        snd (SaveConfig exampleStore docB True (exampleServer False True None)))"
    by (simp add: prod_eq_iff)
  have "configStore (snd (SaveConfig exampleStore docB True (exampleServer False True None)))
          = \<lparr>active = docB, readOnly = False, notified = [(docA, docB)]\<rparr>"
    by (simp add: SaveConfig_Set_succeeds [OF set] cl toggleMetrics_calls)
  then have cfg: "Config exampleStore
      (snd (SaveConfig exampleStore docB True (exampleServer False True None))) = docB"
    by (simp add: Config_def exampleStore_def ConfigService_def)
  have flags: "startMetrics (exampleServer False True None)"
    "Metrics (exampleServer False True None)" "Enable (MetricsSettings docB)"
    by (simp_all add: exampleServer_def docB_def)
  from SaveConfig_toggles_metrics [OF save] ok cfg flags
  show ?thesis
    by simp
qed
section \<open>Properties of the client configuration and of the secrets\<close>

text \<open>
  Claim C3. After every run of \<^verbatim>\<open>regenerateClientConfig\<close>, \<^verbatim>\<open>ClientConfig()\<close> returns a map and
  \<^verbatim>\<open>ClientConfigHash()\<close> is the hexadecimal text of the MD5 digest of the JSON
  serialization of that very map.
\<close>

theorem regenerateClientConfig_hash_of_snapshot:
  "\<exists>m. ClientConfig (regenerateClientConfig store lib ch) = Return m
       \<and> ClientConfigHash (regenerateClientConfig store lib ch)
           = Some (Sprintf_x (md5_Sum lib (json_Marshal_map lib m)))"
  by (simp add: regenerateClientConfig_def ClientConfig_def ClientConfigHash_def Let_def
        split: prod.splits)

lemma regenerateClientConfig_mlog_Warn:
  "mlog_Warn (regenerateClientConfig store lib ch) = mlog_Warn ch"
  by (simp add: regenerateClientConfig_def Let_def split: prod.splits)

text \<open>
  Claim C4. When no key is cached and the persisted record decodes to a key whose
  \<^verbatim>\<open>Curve\<close> is not \<^verbatim>\<open>P-256\<close>, \<^verbatim>\<open>ensureAsymmetricSigningKey\<close> returns the error
  \<^verbatim>\<open>unknown curve\<close>. It generates and saves no key (the store is as the read left it),
  caches no key and does not regenerate the client configuration.
\<close>

theorem ensureAsymmetricSigningKey_unknown_curve:
  assumes "AsymmetricSigningKey ch = None"
    and "System_GetByName store SystemAsymmetricSigningKeyKey (srv_Store ch) = (Inr value, k)"
    and "json_Unmarshal_key lib (Value value) = Inr (Some key)"
    and "ECDSAKey key = Some ec"
    and "Curve ec \<noteq> ''P-256''"
  shows "ensureAsymmetricSigningKey store lib ch
           = (Return (Some (New (''unknown curve: '' @ Curve ec))), ch\<lparr>srv_Store := k\<rparr>)
         \<and> returns_error (fst (ensureAsymmetricSigningKey store lib ch))
         \<and> AsymmetricSigningKey (snd (ensureAsymmetricSigningKey store lib ch)) = None
         \<and> srv_Store (snd (ensureAsymmetricSigningKey store lib ch)) = k"
  using assms
  by (simp add: ensureAsymmetricSigningKey_def ensureAsymmetricSigningKey_generate_def
        ensureAsymmetricSigningKey_reread_def ensureAsymmetricSigningKey_store_def
        returns_error_def AsymmetricSigningKey_def)

text \<open>
  The store holds a P-384 record and nothing is cached: the call returns
  \<^verbatim>\<open>unknown curve: P-384\<close>, the store keeps that record and no key is cached.
\<close>

theorem ensureAsymmetricSigningKey_unknown_curve_witness:
  "AsymmetricSigningKey (exampleChannels [SystemAsymmetricSigningKeyKey \<mapsto> ''P-384''] []) = None
   \<and> json_Unmarshal_key exampleLib ''P-384''
       = Inr (Some \<lparr>ECDSAKey = Some \<lparr>Curve = ''P-384'', X = Some 1, Y = Some 2, D = Some 3\<rparr>\<rparr>)
   \<and> ''P-384'' \<noteq> ''P-256''
   \<and> ensureAsymmetricSigningKey exampleKV exampleLib
        (exampleChannels [SystemAsymmetricSigningKeyKey \<mapsto> ''P-384''] [])
       = (Return (Some (New ''unknown curve: P-384'')),
          exampleChannels [SystemAsymmetricSigningKeyKey \<mapsto> ''P-384''] [])
   \<and> AsymmetricSigningKey (snd (ensureAsymmetricSigningKey exampleKV exampleLib
        (exampleChannels [SystemAsymmetricSigningKeyKey \<mapsto> ''P-384''] []))) = None"
proof -
  let ?ch = "exampleChannels [SystemAsymmetricSigningKeyKey \<mapsto> ''P-384''] []"
  let ?ec = "\<lparr>Curve = ''P-384'', X = Some 1, Y = Some 2, D = Some 3\<rparr>"
  have cached: "AsymmetricSigningKey ?ch = None"
    by (simp add: AsymmetricSigningKey_def exampleChannels_def)
  have read: "System_GetByName exampleKV SystemAsymmetricSigningKeyKey (srv_Store ?ch)
      = (Inr \<lparr>Name = SystemAsymmetricSigningKeyKey, Value = ''P-384''\<rparr>, srv_Store ?ch)"
    by (simp add: exampleKV_def PersistentKV_GetByName_def exampleChannels_def)
  have decode: "json_Unmarshal_key exampleLib
        (Value \<lparr>Name = SystemAsymmetricSigningKeyKey, Value = ''P-384''\<rparr>)
      = Inr (Some \<lparr>ECDSAKey = Some ?ec\<rparr>)"
    by (simp add: exampleLib_def exampleUnmarshal_key_def)
  have ec: "ECDSAKey \<lparr>ECDSAKey = Some ?ec\<rparr> = Some ?ec"
    by simp
  have curve: "Curve ?ec \<noteq> ''P-256''"
    by simp
  have same: "?ch\<lparr>srv_Store := srv_Store ?ch\<rparr> = ?ch"
    by simp
  from ensureAsymmetricSigningKey_unknown_curve [OF cached read decode ec curve]
    cached decode same
  show ?thesis
    by simp
qed
text \<open>
  What \<^verbatim>\<open>ensurePostActionCookieSecret\<close> does once nothing is cached, the first read has
  yielded no secret and the insert of the generated secret has failed.
\<close>

lemma ensurePostActionCookieSecret_Save_fails:
  assumes "postActionCookieSecret ch = None"
    and "System_GetByName store SystemPostActionCookieSecretKey (srv_Store ch) = (r1, k1)"
    and "no_secret_read (json_Unmarshal_secret lib) r1"
    and "rand_Reader_Read lib 32 = Inr buf"
    and "json_Marshal_secret lib \<lparr>Secret = Some buf\<rparr> = Inr v"
    and "System_Save store \<lparr>Name = SystemPostActionCookieSecretKey, Value = v\<rparr> k1
           = (Some saveErr, k2)"
  shows "ensurePostActionCookieSecret store lib ch =
           ensurePostActionCookieSecret_reread store lib None
             (ch\<lparr>srv_Store := k2,
                  mlog_Warn := mlog_Warn ch
                    @ [(''Failed to save PostActionCookieSecret'', saveErr)]\<rparr>)"
  using assms
  by (cases r1)
     (simp_all add: ensurePostActionCookieSecret_def ensurePostActionCookieSecret_generate_def
        no_secret_read_def)

lemma ensurePostActionCookieSecret_reread_outcome:
  assumes "System_GetByName store SystemPostActionCookieSecretKey (srv_Store ch) = (r2, k3)"
  shows "fst (ensurePostActionCookieSecret_reread store lib None ch) =
           (case r2 of
              Inl err \<Rightarrow> Return (Some err)
            | Inr value \<Rightarrow>
                (case json_Unmarshal_secret lib (Value value) of
                   Inl err \<Rightarrow> Return (Some err)
                 | Inr None \<Rightarrow> Panic
                 | Inr (Some sec) \<Rightarrow> Return None))"
    and "srv_Store (snd (ensurePostActionCookieSecret_reread store lib None ch)) = k3"
    and "mlog_Warn (snd (ensurePostActionCookieSecret_reread store lib None ch)) = mlog_Warn ch"
  using assms
  by (simp_all add: ensurePostActionCookieSecret_reread_def
        ensurePostActionCookieSecret_assign_def split: sum.splits option.splits)

lemma ensureAsymmetricSigningKey_Save_fails:
  assumes "AsymmetricSigningKey ch = None"
    and "System_GetByName store SystemAsymmetricSigningKeyKey (srv_Store ch) = (r1, k1)"
    and "no_secret_read (json_Unmarshal_key lib) r1"
    and "ecdsa_GenerateKey lib = Inr (x, y, d)"
    and "json_Marshal_key lib
           \<lparr>ECDSAKey = Some \<lparr>Curve = ''P-256'', X = Some x, Y = Some y, D = Some d\<rparr>\<rparr> = Inr v"
    and "System_Save store \<lparr>Name = SystemAsymmetricSigningKeyKey, Value = v\<rparr> k1
           = (Some saveErr, k2)"
  shows "ensureAsymmetricSigningKey store lib ch =
           ensureAsymmetricSigningKey_reread store lib None
             (ch\<lparr>srv_Store := k2,
                  mlog_Warn := mlog_Warn ch
                    @ [(''Failed to save AsymmetricSigningKey'', saveErr)]\<rparr>)"
  using assms
  by (cases r1)
     (simp_all add: ensureAsymmetricSigningKey_def ensureAsymmetricSigningKey_generate_def
        no_secret_read_def)

lemma ensureAsymmetricSigningKey_reread_outcome:
  assumes "System_GetByName store SystemAsymmetricSigningKeyKey (srv_Store ch) = (r2, k3)"
  shows "fst (ensureAsymmetricSigningKey_reread store lib None ch) =
           (case r2 of
              Inl err \<Rightarrow> Return (Some err)
            | Inr value \<Rightarrow>
                (case json_Unmarshal_key lib (Value value) of
                   Inl err \<Rightarrow> Return (Some err)
                 | Inr None \<Rightarrow> Panic
                 | Inr (Some key) \<Rightarrow>
                     (case ECDSAKey key of
                        None \<Rightarrow> Panic
                      | Some ec \<Rightarrow>
                          if Curve ec = ''P-256'' then Return None
                          else Return (Some (New (''unknown curve: '' @ Curve ec))))))"
    and "mlog_Warn (snd (ensureAsymmetricSigningKey_reread store lib None ch)) = mlog_Warn ch"
  using assms
  by (simp_all add: ensureAsymmetricSigningKey_reread_def ensureAsymmetricSigningKey_store_def
        regenerateClientConfig_mlog_Warn split: sum.splits option.splits)

text \<open>
  Claim C1 as stated fails for \<^verbatim>\<open>ensureAsymmetricSigningKey\<close>. Nothing is cached and the
  store is empty; a peer inserts a P-384 record before this node's insert, which fails;
  the fallback read succeeds and its record decodes; the call still returns an error,
  \<^verbatim>\<open>unknown curve: P-384\<close>.
\<close>

theorem ensureAsymmetricSigningKey_fallback_counterexample:
  "AsymmetricSigningKey
     (exampleChannels Map.empty [\<lparr>Name = SystemAsymmetricSigningKeyKey, Value = ''P-384''\<rparr>])
     = None
   \<and> fst (System_GetByName exampleKV SystemAsymmetricSigningKeyKey
        \<lparr>records = Map.empty,
          peer = [\<lparr>Name = SystemAsymmetricSigningKeyKey, Value = ''P-384''\<rparr>]\<rparr>)
       = Inl (New ''not found'')
   \<and> System_Save exampleKV \<lparr>Name = SystemAsymmetricSigningKeyKey, Value = ''P-256''\<rparr>
        \<lparr>records = Map.empty,
          peer = [\<lparr>Name = SystemAsymmetricSigningKeyKey, Value = ''P-384''\<rparr>]\<rparr>
       = (Some (New ''duplicate key''),
          \<lparr>records = [SystemAsymmetricSigningKeyKey \<mapsto> ''P-384''], peer = []\<rparr>)
   \<and> fst (System_GetByName exampleKV SystemAsymmetricSigningKeyKey
        \<lparr>records = [SystemAsymmetricSigningKeyKey \<mapsto> ''P-384''], peer = []\<rparr>)
       = Inr \<lparr>Name = SystemAsymmetricSigningKeyKey, Value = ''P-384''\<rparr>
   \<and> \<not> read_or_decode_fails (json_Unmarshal_key exampleLib)
          (Inr \<lparr>Name = SystemAsymmetricSigningKeyKey, Value = ''P-384''\<rparr>)
   \<and> fst (ensureAsymmetricSigningKey exampleKV exampleLib
        (exampleChannels Map.empty
           [\<lparr>Name = SystemAsymmetricSigningKeyKey, Value = ''P-384''\<rparr>]))
       = Return (Some (New ''unknown curve: P-384''))
   \<and> returns_error (fst (ensureAsymmetricSigningKey exampleKV exampleLib
        (exampleChannels Map.empty
           [\<lparr>Name = SystemAsymmetricSigningKeyKey, Value = ''P-384''\<rparr>])))"
  by (simp add: ensureAsymmetricSigningKey_def ensureAsymmetricSigningKey_generate_def
        ensureAsymmetricSigningKey_reread_def ensureAsymmetricSigningKey_store_def
        AsymmetricSigningKey_def exampleChannels_def exampleKV_def exampleLib_def
        exampleUnmarshal_key_def PersistentKV_GetByName_def PersistentKV_Save_def
        insert_if_absent_def read_or_decode_fails_def returns_error_def
        SystemAsymmetricSigningKeyKey_def)
text \<open>
  Claim C1, amended. Nothing is cached, the first read yields no secret, and the insert
  (\<^verbatim>\<open>Save\<close>) of the freshly generated secret fails. Then the failure of the insert is logged
  and not returned; \<^verbatim>\<open>GetByName\<close> is called again for the same key on the store as the
  insert left it, and the outcome is decided by that read alone.
  \<^verbatim>\<open>ensurePostActionCookieSecret\<close> returns an error if and only if the fallback read or the
  decode of its result fails. \<^verbatim>\<open>ensureAsymmetricSigningKey\<close> returns an error if and only if
  the fallback read fails, the decode of its result fails, or the decoded key names a
  curve other than P-256.
\<close>

theorem ensure_secret_Save_failure_falls_back:
  "(postActionCookieSecret ch = None
      \<and> System_GetByName store SystemPostActionCookieSecretKey (srv_Store ch) = (r1, k1)
      \<and> no_secret_read (json_Unmarshal_secret lib) r1
      \<and> rand_Reader_Read lib 32 = Inr buf
      \<and> json_Marshal_secret lib \<lparr>Secret = Some buf\<rparr> = Inr v
      \<and> System_Save store \<lparr>Name = SystemPostActionCookieSecretKey, Value = v\<rparr> k1
          = (Some saveErr, k2)
      \<and> System_GetByName store SystemPostActionCookieSecretKey k2 = (r2, k3)
    \<longrightarrow>
      fst (ensurePostActionCookieSecret store lib ch) =
        (case r2 of
           Inl err \<Rightarrow> Return (Some err)
         | Inr value \<Rightarrow>
             (case json_Unmarshal_secret lib (Value value) of
                Inl err \<Rightarrow> Return (Some err)
              | Inr None \<Rightarrow> Panic
              | Inr (Some sec) \<Rightarrow> Return None))
      \<and> (returns_error (fst (ensurePostActionCookieSecret store lib ch))
           \<longleftrightarrow> read_or_decode_fails (json_Unmarshal_secret lib) r2)
      \<and> srv_Store (snd (ensurePostActionCookieSecret store lib ch)) = k3
      \<and> mlog_Warn (snd (ensurePostActionCookieSecret store lib ch))
          = mlog_Warn ch @ [(''Failed to save PostActionCookieSecret'', saveErr)])
   \<and> (AsymmetricSigningKey ch = None
      \<and> System_GetByName store SystemAsymmetricSigningKeyKey (srv_Store ch) = (q1, j1)
      \<and> no_secret_read (json_Unmarshal_key lib) q1
      \<and> ecdsa_GenerateKey lib = Inr (x, y, d)
      \<and> json_Marshal_key lib
            \<lparr>ECDSAKey = Some \<lparr>Curve = ''P-256'', X = Some x, Y = Some y, D = Some d\<rparr>\<rparr> = Inr w
      \<and> System_Save store \<lparr>Name = SystemAsymmetricSigningKeyKey, Value = w\<rparr> j1
          = (Some saveErr', j2)
      \<and> System_GetByName store SystemAsymmetricSigningKeyKey j2 = (q2, j3)
    \<longrightarrow>
      fst (ensureAsymmetricSigningKey store lib ch) =
        (case q2 of
           Inl err \<Rightarrow> Return (Some err)
         | Inr value \<Rightarrow>
             (case json_Unmarshal_key lib (Value value) of
                Inl err \<Rightarrow> Return (Some err)
              | Inr None \<Rightarrow> Panic
              | Inr (Some key) \<Rightarrow>
                  (case ECDSAKey key of
                     None \<Rightarrow> Panic
                   | Some ec \<Rightarrow>
                       if Curve ec = ''P-256'' then Return None
                       else Return (Some (New (''unknown curve: '' @ Curve ec))))))
      \<and> (returns_error (fst (ensureAsymmetricSigningKey store lib ch))
           \<longleftrightarrow> read_or_decode_fails (json_Unmarshal_key lib) q2
                \<or> names_unknown_curve (json_Unmarshal_key lib) q2)
      \<and> mlog_Warn (snd (ensureAsymmetricSigningKey store lib ch))
          = mlog_Warn ch @ [(''Failed to save AsymmetricSigningKey'', saveErr')])"
proof (intro conjI impI)
  assume a: "postActionCookieSecret ch = None
      \<and> System_GetByName store SystemPostActionCookieSecretKey (srv_Store ch) = (r1, k1)
      \<and> no_secret_read (json_Unmarshal_secret lib) r1
      \<and> rand_Reader_Read lib 32 = Inr buf
      \<and> json_Marshal_secret lib \<lparr>Secret = Some buf\<rparr> = Inr v
      \<and> System_Save store \<lparr>Name = SystemPostActionCookieSecretKey, Value = v\<rparr> k1
          = (Some saveErr, k2)
      \<and> System_GetByName store SystemPostActionCookieSecretKey k2 = (r2, k3)"
  let ?ch = "ch\<lparr>srv_Store := k2,
                 mlog_Warn := mlog_Warn ch
                   @ [(''Failed to save PostActionCookieSecret'', saveErr)]\<rparr>"
  from a have run: "ensurePostActionCookieSecret store lib ch =
      ensurePostActionCookieSecret_reread store lib None ?ch"
    by (intro ensurePostActionCookieSecret_Save_fails) auto
  from a have read: "System_GetByName store SystemPostActionCookieSecretKey (srv_Store ?ch)
      = (r2, k3)"
    by simp
  note out = ensurePostActionCookieSecret_reread_outcome [OF read, of lib]
  show res: "fst (ensurePostActionCookieSecret store lib ch) =
        (case r2 of
           Inl err \<Rightarrow> Return (Some err)
         | Inr value \<Rightarrow>
             (case json_Unmarshal_secret lib (Value value) of
                Inl err \<Rightarrow> Return (Some err)
              | Inr None \<Rightarrow> Panic
              | Inr (Some sec) \<Rightarrow> Return None))"
    by (simp only: run out(1))
  show "returns_error (fst (ensurePostActionCookieSecret store lib ch))
           \<longleftrightarrow> read_or_decode_fails (json_Unmarshal_secret lib) r2"
    unfolding res
    by (simp add: returns_error_def read_or_decode_fails_def split: sum.splits option.splits)
  show "srv_Store (snd (ensurePostActionCookieSecret store lib ch)) = k3"
    by (simp only: run out(2))
  show "mlog_Warn (snd (ensurePostActionCookieSecret store lib ch))
          = mlog_Warn ch @ [(''Failed to save PostActionCookieSecret'', saveErr)]"
    by (simp add: run out(3))
next
  assume a: "AsymmetricSigningKey ch = None
      \<and> System_GetByName store SystemAsymmetricSigningKeyKey (srv_Store ch) = (q1, j1)
      \<and> no_secret_read (json_Unmarshal_key lib) q1
      \<and> ecdsa_GenerateKey lib = Inr (x, y, d)
      \<and> json_Marshal_key lib
            \<lparr>ECDSAKey = Some \<lparr>Curve = ''P-256'', X = Some x, Y = Some y, D = Some d\<rparr>\<rparr> = Inr w
      \<and> System_Save store \<lparr>Name = SystemAsymmetricSigningKeyKey, Value = w\<rparr> j1
          = (Some saveErr', j2)
      \<and> System_GetByName store SystemAsymmetricSigningKeyKey j2 = (q2, j3)"
  let ?ch = "ch\<lparr>srv_Store := j2,
                 mlog_Warn := mlog_Warn ch
                   @ [(''Failed to save AsymmetricSigningKey'', saveErr')]\<rparr>"
  from a have run: "ensureAsymmetricSigningKey store lib ch =
      ensureAsymmetricSigningKey_reread store lib None ?ch"
    by (intro ensureAsymmetricSigningKey_Save_fails) auto
  from a have read: "System_GetByName store SystemAsymmetricSigningKeyKey (srv_Store ?ch)
      = (q2, j3)"
    by simp
  note out = ensureAsymmetricSigningKey_reread_outcome [OF read, of lib]
  show res: "fst (ensureAsymmetricSigningKey store lib ch) =
        (case q2 of
           Inl err \<Rightarrow> Return (Some err)
         | Inr value \<Rightarrow>
             (case json_Unmarshal_key lib (Value value) of
                Inl err \<Rightarrow> Return (Some err)
              | Inr None \<Rightarrow> Panic
              | Inr (Some key) \<Rightarrow>
                  (case ECDSAKey key of
                     None \<Rightarrow> Panic
                   | Some ec \<Rightarrow>
                       if Curve ec = ''P-256'' then Return None
                       else Return (Some (New (''unknown curve: '' @ Curve ec))))))"
    by (simp only: run out(1))
  show "returns_error (fst (ensureAsymmetricSigningKey store lib ch))
           \<longleftrightarrow> read_or_decode_fails (json_Unmarshal_key lib) q2
                \<or> names_unknown_curve (json_Unmarshal_key lib) q2"
    unfolding res
    by (simp add: returns_error_def read_or_decode_fails_def names_unknown_curve_def
          split: sum.splits option.splits)
  show "mlog_Warn (snd (ensureAsymmetricSigningKey store lib ch))
          = mlog_Warn ch @ [(''Failed to save AsymmetricSigningKey'', saveErr')]"
    by (simp add: run out(2))
qed

text \<open>
  Two races on the empty example store. A peer inserts the cookie record \<^verbatim>\<open>theirs\<close> before
  this node's insert of \<^verbatim>\<open>mine\<close>: the insert fails, the fallback read finds the peer's
  record and the call returns no error. A peer inserts a P-256 key record: the insert
  fails, the fallback read finds the peer's key and the call returns no error.
\<close>

theorem ensure_secret_Save_failure_falls_back_witness:
  "System_Save exampleKV \<lparr>Name = SystemPostActionCookieSecretKey, Value = ''mine''\<rparr>
      \<lparr>records = Map.empty,
        peer = [\<lparr>Name = SystemPostActionCookieSecretKey, Value = ''theirs''\<rparr>]\<rparr>
     = (Some (New ''duplicate key''),
        \<lparr>records = [SystemPostActionCookieSecretKey \<mapsto> ''theirs''], peer = []\<rparr>)
   \<and> fst (ensurePostActionCookieSecret exampleKV exampleLib
        (exampleChannels Map.empty
           [\<lparr>Name = SystemPostActionCookieSecretKey, Value = ''theirs''\<rparr>]))
       = Return None
   \<and> \<not> returns_error (fst (ensurePostActionCookieSecret exampleKV exampleLib
        (exampleChannels Map.empty
           [\<lparr>Name = SystemPostActionCookieSecretKey, Value = ''theirs''\<rparr>])))
   \<and> mlog_Warn (snd (ensurePostActionCookieSecret exampleKV exampleLib
        (exampleChannels Map.empty
           [\<lparr>Name = SystemPostActionCookieSecretKey, Value = ''theirs''\<rparr>])))
       = [(''Failed to save PostActionCookieSecret'', New ''duplicate key'')]
   \<and> System_Save exampleKV \<lparr>Name = SystemAsymmetricSigningKeyKey, Value = ''P-256''\<rparr>
        \<lparr>records = Map.empty,
          peer = [\<lparr>Name = SystemAsymmetricSigningKeyKey, Value = ''P-256''\<rparr>]\<rparr>
       = (Some (New ''duplicate key''),
          \<lparr>records = [SystemAsymmetricSigningKeyKey \<mapsto> ''P-256''], peer = []\<rparr>)
   \<and> fst (ensureAsymmetricSigningKey exampleKV exampleLib
        (exampleChannels Map.empty
           [\<lparr>Name = SystemAsymmetricSigningKeyKey, Value = ''P-256''\<rparr>]))
       = Return None
   \<and> \<not> returns_error (fst (ensureAsymmetricSigningKey exampleKV exampleLib
        (exampleChannels Map.empty
           [\<lparr>Name = SystemAsymmetricSigningKeyKey, Value = ''P-256''\<rparr>])))"
proof -
  let ?c = SystemPostActionCookieSecretKey
  let ?a = SystemAsymmetricSigningKeyKey
  let ?chc = "exampleChannels Map.empty [\<lparr>Name = ?c, Value = ''theirs''\<rparr>]"
  let ?cha = "exampleChannels Map.empty [\<lparr>Name = ?a, Value = ''P-256''\<rparr>]"
  let ?kc = "\<lparr>records = Map.empty, peer = [\<lparr>Name = ?c, Value = ''theirs''\<rparr>]\<rparr>"
  let ?ka = "\<lparr>records = Map.empty, peer = [\<lparr>Name = ?a, Value = ''P-256''\<rparr>]\<rparr>"
  let ?kc' = "\<lparr>records = [?c \<mapsto> ''theirs''], peer = []\<rparr>"
  let ?ka' = "\<lparr>records = [?a \<mapsto> ''P-256''], peer = []\<rparr>"
  have c1: "postActionCookieSecret ?chc = None"
    and c2: "System_GetByName exampleKV ?c (srv_Store ?chc) = (Inl (New ''not found''), ?kc)"
    and c3: "no_secret_read (json_Unmarshal_secret exampleLib) (Inl (New ''not found''))"
    and c4: "rand_Reader_Read exampleLib 32 = Inr (replicate 32 1)"
    and c5: "json_Marshal_secret exampleLib \<lparr>Secret = Some (replicate 32 1)\<rparr> = Inr ''mine''"
    and c6: "System_Save exampleKV \<lparr>Name = ?c, Value = ''mine''\<rparr> ?kc
               = (Some (New ''duplicate key''), ?kc')"
    and c7: "System_GetByName exampleKV ?c ?kc' = (Inr \<lparr>Name = ?c, Value = ''theirs''\<rparr>, ?kc')"
    and c8: "json_Unmarshal_secret exampleLib ''theirs''
               = Inr (Some \<lparr>Secret = Some (replicate 32 2)\<rparr>)"
    by (simp_all add: exampleChannels_def exampleKV_def exampleLib_def
          PersistentKV_GetByName_def PersistentKV_Save_def insert_if_absent_def
          no_secret_read_def exampleUnmarshal_secret_def)
  have a1: "AsymmetricSigningKey ?cha = None"
    and a2: "System_GetByName exampleKV ?a (srv_Store ?cha) = (Inl (New ''not found''), ?ka)"
    and a3: "no_secret_read (json_Unmarshal_key exampleLib) (Inl (New ''not found''))"
    and a4: "ecdsa_GenerateKey exampleLib = Inr (1, 2, 3)"
    and a5: "json_Marshal_key exampleLib
               \<lparr>ECDSAKey = Some \<lparr>Curve = ''P-256'', X = Some 1, Y = Some 2, D = Some 3\<rparr>\<rparr>
               = Inr ''P-256''"
    and a6: "System_Save exampleKV \<lparr>Name = ?a, Value = ''P-256''\<rparr> ?ka
               = (Some (New ''duplicate key''), ?ka')"
    and a7: "System_GetByName exampleKV ?a ?ka' = (Inr \<lparr>Name = ?a, Value = ''P-256''\<rparr>, ?ka')"
    and a8: "json_Unmarshal_key exampleLib ''P-256''
               = Inr (Some \<lparr>ECDSAKey =
                   Some \<lparr>Curve = ''P-256'', X = Some 1, Y = Some 2, D = Some 3\<rparr>\<rparr>)"
    by (simp_all add: exampleChannels_def exampleKV_def exampleLib_def
          PersistentKV_GetByName_def PersistentKV_Save_def insert_if_absent_def
          no_secret_read_def exampleUnmarshal_key_def AsymmetricSigningKey_def)
  have logs: "mlog_Warn ?chc = []"
    by (simp add: exampleChannels_def)
  have cookie: "fst (ensurePostActionCookieSecret exampleKV exampleLib ?chc) = Return None
      \<and> \<not> returns_error (fst (ensurePostActionCookieSecret exampleKV exampleLib ?chc))
      \<and> mlog_Warn (snd (ensurePostActionCookieSecret exampleKV exampleLib ?chc))
          = [(''Failed to save PostActionCookieSecret'', New ''duplicate key'')]"
    using ensure_secret_Save_failure_falls_back
            [of ?chc exampleKV "Inl (New ''not found'')" ?kc exampleLib "replicate 32 1"
                "''mine''" "New ''duplicate key''" ?kc' "Inr \<lparr>Name = ?c, Value = ''theirs''\<rparr>"
                ?kc']
          c1 c2 c3 c4 c5 c6 c7 c8 logs
    by (simp add: read_or_decode_fails_def returns_error_def)
  have key: "fst (ensureAsymmetricSigningKey exampleKV exampleLib ?cha) = Return None
      \<and> \<not> returns_error (fst (ensureAsymmetricSigningKey exampleKV exampleLib ?cha))"
    using ensure_secret_Save_failure_falls_back
            [of ?cha exampleKV _ _ exampleLib _ _ _ _ _ _
                "Inl (New ''not found'')" ?ka 1 2 3 "''P-256''" "New ''duplicate key''" ?ka'
                "Inr \<lparr>Name = ?a, Value = ''P-256''\<rparr>" ?ka']
          a1 a2 a3 a4 a5 a6 a7 a8
    by (simp add: read_or_decode_fails_def names_unknown_curve_def returns_error_def)
  from cookie key c6 a6 show ?thesis
    by (simp add: returns_error_def)
qed

end
